theory Spec2Isabelle
  imports Main
begin

section \<open>Data model of vtkPythonInterpreter.cxx\<close>

text \<open>
  The file keeps its state in process-wide statics and in the embedded Python runtime.
  Both are gathered in one record that every operation takes and returns. C strings are
  \<open>string\<close>; a \<open>char*\<close> or \<open>wchar_t*\<close> that may be null is a \<open>string option\<close>
  (\<open>None\<close> is the null pointer). Building a \<open>std::string\<close> from a null pointer has no
  defined result in the source; the operations that do so return \<open>None\<close> there, so
  an operation that can reach such a place has an \<open>option\<close> result.
  The global interpreter lock (vtkPythonScopeGilEnsurer) is not represented.
\<close>

type_synonym wstring = string

datatype py_stream = DefaultStream | CaptureHelper bool

datatype py_fd = PyStdout | PyStderr

type_synonym py_write = "py_fd \<times> string"

datatype event_id = EnterEvent | ExitEvent | ErrorEvent | SetOutputEvent | UpdateEvent

text \<open>What the code does to its surroundings, in order.\<close>

datatype event =
    Cout string
  | Stderr string
  | ConsoleWrite py_fd string
  | DisplayText string
  | DisplayErrorText string
  | InvokeEvent nat event_id "string option"
  | Py_InitializeEx_call int
  | Signal_SIGINT_DFL
  | Py_Finalize_call
  | PyRun_SimpleString_call string
  | Py_Main_call "string option list"
  | SetStackTraceOnError_call int

record state =
  InitializedOnce :: bool
  ConsoleBuffering :: bool
  StdErrBuffer :: string
  StdOutBuffer :: string
  PythonVerboseFlag :: int
  GlobalInterpreters :: "nat option list"
  PythonPaths :: "string list"
  Py_IsInitialized :: bool
  ProgramName :: "wstring option"
  sys_path :: "string list"
  sys_stdout :: py_stream
  sys_stderr :: py_stream
  sys_stdin :: py_stream
  trace :: "event list"

text \<open>
  The build configuration (the preprocessor conditions of the file) and the collaborators
  that are not part of the file: the CPython API, vtksys::SystemTools, the dynamic loader
  and the file system. They are parameters of the model.
\<close>

record environment =
  build_py3 :: bool
  build_win32 :: bool
  build_shared_libs :: bool
  VTK_PYTHON_SITE_PACKAGES_SUFFIX :: string
  GetVTKSourceVersion :: string
  Py_GetPythonHome :: "wstring option"
  Py_DecodeLocale :: "string option \<Rightarrow> wstring option"
  Py_EncodeLocale :: "wstring option \<Rightarrow> string option"
  dl_library_of_symbol :: "string \<Rightarrow> string option"
  GetModuleFileName :: "string option"
  FileExists :: "string \<Rightarrow> bool"
  FileIsDirectory :: "string \<Rightarrow> bool"
  SplitPath :: "string \<Rightarrow> string list"
  JoinPath :: "string list \<Rightarrow> string"
  CollapseFullPath :: "string \<Rightarrow> string"
  GetFilenamePath :: "string \<Rightarrow> string"
  default_sys_path :: "wstring option \<Rightarrow> string list"
  PyRun_SimpleString :: "state \<Rightarrow> string \<Rightarrow> py_write list \<times> int"
  Py_Main :: "state \<Rightarrow> string option list \<Rightarrow> py_write list \<times> int"

section \<open>Helpers of the anonymous namespace\<close>

definition endl :: string where
  "endl = [CHR 0x0A]"

definition VTK_PATH_SEPARATOR :: "environment \<Rightarrow> string" where
  "VTK_PATH_SEPARATOR env = (if build_win32 env then [CHR 0x5C] else ''/'')"

definition cout :: "string \<Rightarrow> state \<Rightarrow> state" where
  "cout x s = s\<lparr>trace := trace s @ [Cout (x @ endl)]\<rparr>"

definition VTKPY_DEBUG_MESSAGE :: "string \<Rightarrow> state \<Rightarrow> state" where
  "VTKPY_DEBUG_MESSAGE x s =
     (if PythonVerboseFlag s > 0 then cout (''# vtk: '' @ x) s else s)"

definition VTKPY_DEBUG_MESSAGE_VV :: "string \<Rightarrow> state \<Rightarrow> state" where
  "VTKPY_DEBUG_MESSAGE_VV x s =
     (if PythonVerboseFlag s > 1 then cout (''# vtk: '' @ x) s else s)"

definition vtk_Py_DecodeLocale :: "environment \<Rightarrow> string option \<Rightarrow> wstring option" where
  "vtk_Py_DecodeLocale env arg = Py_DecodeLocale env arg"

definition vtk_Py_EncodeLocale :: "environment \<Rightarrow> wstring option \<Rightarrow> string option" where
  "vtk_Py_EncodeLocale env arg = Py_EncodeLocale env arg"

definition GetLibraryForSymbol :: "environment \<Rightarrow> string \<Rightarrow> string" where
  "GetLibraryForSymbol env symbolname =
     (if build_win32 env then
        (case GetModuleFileName env of None \<Rightarrow> [] | Some path \<Rightarrow> path)
      else
        (case dl_library_of_symbol env symbolname of None \<Rightarrow> [] | Some fname \<Rightarrow> fname))"

fun invoke_all :: "nat option list \<Rightarrow> event_id \<Rightarrow> string option \<Rightarrow> event list" where
  "invoke_all [] eventid calldata = []"
| "invoke_all (w # ws) eventid calldata =
     (case w of
        None \<Rightarrow> invoke_all ws eventid calldata
      | Some p \<Rightarrow> InvokeEvent p eventid calldata # invoke_all ws eventid calldata)"

definition NotifyInterpreters :: "event_id \<Rightarrow> string option \<Rightarrow> state \<Rightarrow> state" where
  "NotifyInterpreters eventid calldata s =
     s\<lparr>trace := trace s @ invoke_all (GlobalInterpreters s) eventid calldata\<rparr>"

definition vtkPrependPythonPath :: "string \<Rightarrow> state \<Rightarrow> state" where
  "vtkPrependPythonPath pathtoadd s =
     (let s1 = VTKPY_DEBUG_MESSAGE (''adding module search path '' @ pathtoadd) s
      in s1\<lparr>sys_path := pathtoadd # sys_path s1\<rparr>)"

definition vtkSafePrependPythonPath :: "environment \<Rightarrow> string \<Rightarrow> state \<Rightarrow> state" where
  "vtkSafePrependPythonPath env pathtoadd s =
     (let s1 = VTKPY_DEBUG_MESSAGE_VV (''trying '' @ pathtoadd) s
      in if pathtoadd \<noteq> [] \<and> FileIsDirectory env pathtoadd
         then vtkPrependPythonPath pathtoadd s1 else s1)"

section \<open>The observer registry\<close>

text \<open>
  An interpreter object is identified by its address. An entry of GlobalInterpreters is a
  vtkWeakPointer: \<open>Some p\<close> while it refers to the object at \<open>p\<close>, \<open>None\<close> once it is null.
\<close>

definition vtkPythonInterpreter_ctor :: "nat \<Rightarrow> state \<Rightarrow> state" where
  "vtkPythonInterpreter_ctor this s =
     s\<lparr>GlobalInterpreters := GlobalInterpreters s @ [Some this]\<rparr>"

fun erase_first_match :: "nat \<Rightarrow> nat option list \<Rightarrow> nat option list" where
  "erase_first_match this [] = []"
| "erase_first_match this (w # ws) =
     (if w = Some this then ws else w # erase_first_match this ws)"

definition vtkPythonInterpreter_dtor :: "nat \<Rightarrow> state \<Rightarrow> state" where
  "vtkPythonInterpreter_dtor this s =
     s\<lparr>GlobalInterpreters := erase_first_match this (GlobalInterpreters s)\<rparr>"

text \<open>
  Modelled from the spec: vtkWeakPointer (vtkWeakPointer.h is not among the sources). The
  registry holds non-owning references; a reference to a destroyed object is expired and
  reads as null.
\<close>

definition expire_weak_pointers :: "nat \<Rightarrow> state \<Rightarrow> state" where
  "expire_weak_pointers this s =
     s\<lparr>GlobalInterpreters :=
         map (\<lambda>w. if w = Some this then None else w) (GlobalInterpreters s)\<rparr>"

text \<open>
  Destroying an object runs its destructor and expires the weak pointers to it. The
  sources do not fix which happens first, so both orders are given.
\<close>

definition destroy :: "nat \<Rightarrow> state \<Rightarrow> state" where
  "destroy this s = expire_weak_pointers this (vtkPythonInterpreter_dtor this s)"

definition destroy_expired_first :: "nat \<Rightarrow> state \<Rightarrow> state" where
  "destroy_expired_first this s = vtkPythonInterpreter_dtor this (expire_weak_pointers this s)"

section \<open>The embedded runtime\<close>

text \<open>
  The calls of the CPython API that change what the file later reads back.
  \<open>Py_InitializeEx\<close> starts the runtime with its own \<open>sys.path\<close> and its own standard
  streams. A script writes to whatever \<open>sys.stdout\<close> and \<open>sys.stderr\<close> are bound to.
\<close>

definition Py_SetProgramName :: "wstring option \<Rightarrow> state \<Rightarrow> state" where
  "Py_SetProgramName name s = s\<lparr>ProgramName := name\<rparr>"

definition Py_GetProgramName :: "state \<Rightarrow> wstring option" where
  "Py_GetProgramName s = ProgramName s"

definition Py_InitializeEx :: "environment \<Rightarrow> int \<Rightarrow> state \<Rightarrow> state" where
  "Py_InitializeEx env initsigs s =
     s\<lparr>Py_IsInitialized := True,
       sys_path := default_sys_path env (ProgramName s),
       sys_stdout := DefaultStream, sys_stderr := DefaultStream, sys_stdin := DefaultStream,
       trace := trace s @ [Py_InitializeEx_call initsigs]\<rparr>"

definition Py_Finalize :: "state \<Rightarrow> state" where
  "Py_Finalize s = s\<lparr>Py_IsInitialized := False, trace := trace s @ [Py_Finalize_call]\<rparr>"

definition vtkOutputWindowDisplayText :: "string \<Rightarrow> state \<Rightarrow> state" where
  "vtkOutputWindowDisplayText txt s = s\<lparr>trace := trace s @ [DisplayText txt]\<rparr>"

definition vtkOutputWindowDisplayErrorText :: "string \<Rightarrow> state \<Rightarrow> state" where
  "vtkOutputWindowDisplayErrorText txt s = s\<lparr>trace := trace s @ [DisplayErrorText txt]\<rparr>"

section \<open>Stream callbacks\<close>

definition WriteStdOut :: "string \<Rightarrow> state \<Rightarrow> state" where
  "WriteStdOut txt s =
     (if ConsoleBuffering s then s\<lparr>StdOutBuffer := StdOutBuffer s @ txt\<rparr>
      else NotifyInterpreters SetOutputEvent (Some txt) (vtkOutputWindowDisplayText txt s))"

definition WriteStdErr :: "string \<Rightarrow> state \<Rightarrow> state" where
  "WriteStdErr txt s =
     (if ConsoleBuffering s then s\<lparr>StdErrBuffer := StdErrBuffer s @ txt\<rparr>
      else NotifyInterpreters ErrorEvent (Some txt) (vtkOutputWindowDisplayErrorText txt s))"

text \<open>
  Modelled from the spec: vtkPythonStdStreamCaptureHelper (its header is not among the
  sources). The helper made with \<open>NewPythonStdStreamCaptureHelper(false)\<close> passes a write
  to WriteStdOut, the one made with \<open>true\<close> passes it to WriteStdErr. A stream left at the
  runtime's default writes to the console.
\<close>

definition stream_write :: "py_write \<Rightarrow> state \<Rightarrow> state" where
  "stream_write w s =
     (case (case fst w of PyStdout \<Rightarrow> sys_stdout s | PyStderr \<Rightarrow> sys_stderr s) of
        DefaultStream \<Rightarrow> s\<lparr>trace := trace s @ [ConsoleWrite (fst w) (snd w)]\<rparr>
      | CaptureHelper dump_to_error \<Rightarrow>
          if dump_to_error then WriteStdErr (snd w) s else WriteStdOut (snd w) s)"

definition run_PyRun_SimpleString :: "environment \<Rightarrow> string \<Rightarrow> state \<Rightarrow> int \<times> state" where
  "run_PyRun_SimpleString env command s =
     (let s1 = s\<lparr>trace := trace s @ [PyRun_SimpleString_call command]\<rparr>
      in (snd (PyRun_SimpleString env s command),
          fold stream_write (fst (PyRun_SimpleString env s command)) s1))"

definition run_Py_Main :: "environment \<Rightarrow> string option list \<Rightarrow> state \<Rightarrow> int \<times> state" where
  "run_Py_Main env args s =
     (let s1 = s\<lparr>trace := trace s @ [Py_Main_call args]\<rparr>
      in (snd (Py_Main env s args), fold stream_write (fst (Py_Main env s args)) s1))"

section \<open>Path resolver\<close>

definition SetupPythonPrefix :: "environment \<Rightarrow> state \<Rightarrow> state" where
  "SetupPythonPrefix env s =
     (if Py_GetPythonHome env \<noteq> None then
        VTKPY_DEBUG_MESSAGE ''`PYTHONHOME` already set. Leaving unchanged.'' s
      else
        let pythonlib = GetLibraryForSymbol env ''Py_SetProgramName'' in
        if pythonlib = [] then
          VTKPY_DEBUG_MESSAGE
            (''static Python build or `Py_SetProgramName` library couldn't be found. '' @
             ''Set `PYTHONHOME` if Python standard library fails to load.'') s
        else
          let oldprogramname =
                (if build_py3 env then vtk_Py_EncodeLocale env (Py_GetProgramName s)
                 else Py_GetProgramName s) in
          if oldprogramname \<noteq> None \<and> oldprogramname \<noteq> Some ''python'' then
            VTKPY_DEBUG_MESSAGE ''program-name has been changed. Leaving unchanged.'' s
          else
            let newprogramname =
                  GetFilenamePath env pythonlib @ VTK_PATH_SEPARATOR env @ ''vtkpython'';
                s1 = VTKPY_DEBUG_MESSAGE
                       (''calling Py_SetProgramName('' @ newprogramname @
                        '') to aid in setup of Python prefix.'') s
            in if build_py3 env
               then Py_SetProgramName (vtk_Py_DecodeLocale env (Some newprogramname)) s1
               else Py_SetProgramName (Some newprogramname) s1)"

definition landmark :: "environment \<Rightarrow> string" where
  "landmark env = (if build_win32 env then ''vtk'' @ [CHR 0x5C] @ ''__init__.py''
                   else ''vtk/__init__.py'')"

text \<open>The loop of SetupVTKPythonPaths over \<open>vtkprefix_components\<close>; \<open>pop_back\<close> is \<open>butlast\<close>.\<close>

function landmark_walk :: "environment \<Rightarrow> string list \<Rightarrow> state \<Rightarrow> state" where
  "landmark_walk env vtkprefix_components s =
     (if vtkprefix_components \<noteq> [] then
        (let curprefix = JoinPath env vtkprefix_components;
             pathtocheck = curprefix @ VTK_PATH_SEPARATOR env @ VTK_PYTHON_SITE_PACKAGES_SUFFIX env;
             landmarktocheck = pathtocheck @ VTK_PATH_SEPARATOR env @ landmark env
         in if FileExists env landmarktocheck then
              vtkSafePrependPythonPath env pathtocheck
                (VTKPY_DEBUG_MESSAGE_VV
                   (''trying VTK landmark file '' @ landmarktocheck @ '' -- success!'') s)
            else
              landmark_walk env (butlast vtkprefix_components)
                (VTKPY_DEBUG_MESSAGE_VV
                   (''trying VTK landmark file '' @ landmarktocheck @ '' -- failed!'') s))
      else s)"
  by pat_completeness auto
termination
  by (relation "measure (\<lambda>(env, cs, s). length cs)") auto

definition SetupVTKPythonPaths :: "environment \<Rightarrow> state \<Rightarrow> state option" where
  "SetupVTKPythonPaths env s =
     (let vtklib = (if build_shared_libs env then GetLibraryForSymbol env ''GetVTKVersion''
                    else []);
          s1 = (if build_shared_libs env then
                  (let s0 = VTKPY_DEBUG_MESSAGE ''shared VTK build detected.'' s
                   in if vtklib = [] then
                        VTKPY_DEBUG_MESSAGE
                          (''`GetVTKVersion` library couldn't be found. '' @
                           ''Will use `Py_GetProgramName` next.'') s0
                      else s0)
                else
                  VTKPY_DEBUG_MESSAGE
                    (''static VTK build detected. '' @
                     ''Using `Py_GetProgramName` to locate python modules.'') s)
      in if vtklib = [] then
           (case (if build_py3 env then vtk_Py_EncodeLocale env (Py_GetProgramName s1)
                  else Py_GetProgramName s1) of
              None \<Rightarrow> None
            | Some vtkprefix \<Rightarrow>
                Some (landmark_walk env (SplitPath env (CollapseFullPath env vtkprefix)) s1))
         else
           Some (landmark_walk env (SplitPath env (GetFilenamePath env vtklib)) s1))"

section \<open>Interpreter lifecycle\<close>

definition strip_carriage_returns :: "string \<Rightarrow> string" where
  "strip_carriage_returns buffer = filter (\<lambda>c. c \<noteq> CHR 0x0D) buffer"

text \<open>
  The first block of Initialize: start the runtime when it is not running, then put the
  default SIGINT handler back.
\<close>

definition start_runtime :: "environment \<Rightarrow> int \<Rightarrow> state \<Rightarrow> state" where
  "start_runtime env initsigs s =
     (if \<not> Py_IsInitialized s then
        (let s0 = Py_InitializeEx env initsigs (SetupPythonPrefix env s)
         in s0\<lparr>trace := trace s0 @ [Signal_SIGINT_DFL]\<rparr>)
      else s)"

text \<open>
  The block of Initialize that makes the two capture helpers and installs them with
  PySys_SetObject: \<open>wrapperOut\<close> as stdout and stdin, \<open>wrapperErr\<close> as stderr.
\<close>

definition bind_streams :: "state \<Rightarrow> state" where
  "bind_streams s =
     s\<lparr>sys_stdout := CaptureHelper False,
       sys_stderr := CaptureHelper True,
       sys_stdin := CaptureHelper False\<rparr>"

text \<open>The body of RunSimpleString after its call of Initialize.\<close>

definition execute_script :: "environment \<Rightarrow> string option \<Rightarrow> state \<Rightarrow> int \<times> state" where
  "execute_script env script s =
     (let s1 = s\<lparr>ConsoleBuffering := True\<rparr>;
          buffer = strip_carriage_returns (case script of None \<Rightarrow> [] | Some t \<Rightarrow> t);
          pyReturn = fst (run_PyRun_SimpleString env buffer s1);
          s2 = (snd (run_PyRun_SimpleString env buffer s1))\<lparr>ConsoleBuffering := False\<rparr>;
          s3 = (if StdErrBuffer s2 \<noteq> [] then
                  (NotifyInterpreters ErrorEvent (Some (StdErrBuffer s2))
                     (vtkOutputWindowDisplayErrorText (StdErrBuffer s2) s2))
                  \<lparr>StdErrBuffer := []\<rparr>
                else s2);
          s4 = (if StdOutBuffer s3 \<noteq> [] then
                  (NotifyInterpreters SetOutputEvent (Some (StdOutBuffer s3))
                     (vtkOutputWindowDisplayText (StdOutBuffer s3) s3))
                  \<lparr>StdOutBuffer := []\<rparr>
                else s3)
      in (pyReturn, s4))"

text \<open>
  Initialize runs RunSimpleString with the empty script during its first-time setup, and
  RunSimpleString starts by calling Initialize; the two are defined together. The inner
  call finds InitializedOnce set, which is what ends the recursion. The thread set-up of
  the VTK_PYTHON_FULL_THREADSAFE build only concerns the interpreter lock and is not
  represented. \<open>None\<close> is returned where SetupVTKPythonPaths has no defined result.
\<close>

function Initialize :: "environment \<Rightarrow> int \<Rightarrow> state \<Rightarrow> (bool \<times> state) option"
  and RunSimpleString :: "environment \<Rightarrow> string option \<Rightarrow> state \<Rightarrow> (int \<times> state) option"
where
  "Initialize env initsigs s =
     (if \<not> InitializedOnce (start_runtime env initsigs s) then
        (case RunSimpleString env (Some [])
                ((start_runtime env initsigs s)\<lparr>InitializedOnce := True\<rparr>) of
           None \<Rightarrow> None
         | Some r \<Rightarrow>
             (case SetupVTKPythonPaths env (bind_streams (snd r)) of
                None \<Rightarrow> None
              | Some s2 \<Rightarrow>
                  Some (True,
                        NotifyInterpreters EnterEvent None
                          (fold vtkPrependPythonPath (PythonPaths s2) s2))))
      else Some (False, start_runtime env initsigs s))"
| "RunSimpleString env script s =
     (case Initialize env 1 s of
        None \<Rightarrow> None
      | Some r \<Rightarrow> Some (execute_script env script (snd r)))"
  by pat_completeness auto
termination
  apply (relation "measure (\<lambda>x. case x of
            Inl (env, initsigs, s) \<Rightarrow> (if InitializedOnce s then 0 else 2)
          | Inr (env, script, s) \<Rightarrow> (if InitializedOnce s then 1 else 3))")
    apply simp
   apply (simp add: start_runtime_def Let_def SetupPythonPrefix_def Py_InitializeEx_def
      Py_SetProgramName_def VTKPY_DEBUG_MESSAGE_def cout_def split: if_splits)
  apply simp
  done

declare Initialize.simps [simp del]
declare RunSimpleString.simps [simp del]
declare landmark_walk.simps [simp del]

definition Finalize :: "state \<Rightarrow> state" where
  "Finalize s =
     (if Py_IsInitialized s then Py_Finalize (NotifyInterpreters ExitEvent None s) else s)"

definition SetProgramName :: "environment \<Rightarrow> string option \<Rightarrow> state \<Rightarrow> state" where
  "SetProgramName env programname s =
     (case programname of
        None \<Rightarrow> s
      | Some name \<Rightarrow>
          if build_py3 env then
            (case vtk_Py_DecodeLocale env (Some name) of
               None \<Rightarrow>
                 Py_SetProgramName (Some [])
                   (s\<lparr>trace := trace s @
                        [Stderr (''Fatal vtkpython error: unable to decode the program name''
                                 @ endl)]\<rparr>)
             | Some argv0 \<Rightarrow> Py_SetProgramName (Some argv0) s)
          else Py_SetProgramName (Some name) s)"

definition convert_slashes :: "environment \<Rightarrow> string \<Rightarrow> string" where
  "convert_slashes env dir =
     (if build_win32 env then map (\<lambda>c. if c = CHR ''/'' then CHR 0x5C else c) dir else dir)"

definition PrependPythonPath :: "environment \<Rightarrow> string option \<Rightarrow> state \<Rightarrow> state" where
  "PrependPythonPath env dir s =
     (case dir of
        None \<Rightarrow> s
      | Some d \<Rightarrow>
          (let out_dir = convert_slashes env d;
               s1 = s\<lparr>PythonPaths := PythonPaths s @ [out_dir]\<rparr>
           in if \<not> Py_IsInitialized s1 then s1 else vtkPrependPythonPath out_dir s1))"

section \<open>PyMain\<close>

text \<open>
  \<open>argv\<close> is the list of the first \<open>argc\<close> entries, each a pointer that may be null.
  The call of EnableMSVCDebugHook concerns the debug runtime of one compiler and is not
  represented.
\<close>

text \<open>The first loop of PyMain, over \<open>argv[0..argc)\<close>, on the value of PythonVerboseFlag.\<close>

fun scan_verbose_flags :: "string option list \<Rightarrow> int \<Rightarrow> int" where
  "scan_verbose_flags [] flag = flag"
| "scan_verbose_flags (a # rest) flag =
     (let flag1 = (if a = Some ''-v'' then flag + 1 else flag);
          flag2 = (if a = Some ''-vv'' then 2 else flag1)
      in scan_verbose_flags rest flag2)"

fun show_nat :: "nat \<Rightarrow> string" where
  "show_nat n =
     (if n < 10 then [''0123456789'' ! n]
      else show_nat (n div 10) @ [''0123456789'' ! (n mod 10)])"

declare show_nat.simps [simp del]

text \<open>
  The argument loop of the Python 3 build: \<open>i\<close> is the index in \<open>argv\<close>, \<open>argvWide\<close> the
  arguments decoded so far. \<open>None\<close> is the early \<open>return 1\<close>.
\<close>

fun decode_arguments ::
  "environment \<Rightarrow> string option list \<Rightarrow> nat \<Rightarrow> wstring list \<Rightarrow> state
     \<Rightarrow> wstring list option \<times> state" where
  "decode_arguments env [] i argvWide s = (Some argvWide, s)"
| "decode_arguments env (a # rest) i argvWide s =
     (if a = Some ''--enable-bt'' then
        decode_arguments env rest (Suc i) argvWide
          (s\<lparr>trace := trace s @ [SetStackTraceOnError_call 1]\<rparr>)
      else
        (let s1 = (if a = Some ''-V'' then cout (GetVTKSourceVersion env) s else s)
         in case vtk_Py_DecodeLocale env a of
              None \<Rightarrow>
                (None,
                 s1\<lparr>trace := trace s1 @
                      [Stderr (''Fatal vtkpython error: '' @
                               ''unable to decode the command line argument #'' @
                               show_nat (i + 1) @ endl)]\<rparr>)
            | Some w \<Rightarrow> decode_arguments env rest (Suc i) (argvWide @ [w]) s1))"

text \<open>The argument loop of the Python 2 build, filling \<open>newargv\<close>.\<close>

fun collect_arguments ::
  "environment \<Rightarrow> string option list \<Rightarrow> string option list \<Rightarrow> state
     \<Rightarrow> string option list \<times> state" where
  "collect_arguments env [] newargv s = (newargv, s)"
| "collect_arguments env (a # rest) newargv s =
     (if a = Some ''--enable-bt'' then
        collect_arguments env rest newargv
          (s\<lparr>trace := trace s @ [SetStackTraceOnError_call 1]\<rparr>)
      else
        (let s1 = (if a = Some ''-V'' then cout (GetVTKSourceVersion env) s else s)
         in collect_arguments env rest (newargv @ [a]) s1))"

definition PyMain :: "environment \<Rightarrow> string option list \<Rightarrow> state \<Rightarrow> (int \<times> state) option" where
  "PyMain env argv s =
     (case Initialize env 1 (s\<lparr>PythonVerboseFlag := scan_verbose_flags argv 0\<rparr>) of
        None \<Rightarrow> None
      | Some r \<Rightarrow>
          if build_py3 env then
            (case fst (decode_arguments env argv 0 [] (snd r)) of
               None \<Rightarrow> Some (1, snd (decode_arguments env argv 0 [] (snd r)))
             | Some argvWide \<Rightarrow>
                 Some (run_Py_Main env (map Some argvWide)
                         (snd (decode_arguments env argv 0 [] (snd r)))))
          else
            Some (run_Py_Main env (fst (collect_arguments env argv [] (snd r)))
                    (snd (collect_arguments env argv [] (snd r)))))"

section \<open>Sequences of calls and readings of the state\<close>

text \<open>Calls of Initialize one after the other, with the values they return.\<close>

fun Initialize_calls ::
  "environment \<Rightarrow> int list \<Rightarrow> state \<Rightarrow> (bool list \<times> state) option" where
  "Initialize_calls env [] s = Some ([], s)"
| "Initialize_calls env (initsigs # rest) s =
     (case Initialize env initsigs s of
        None \<Rightarrow> None
      | Some r \<Rightarrow>
          (case Initialize_calls env rest (snd r) of
             None \<Rightarrow> None
           | Some rs \<Rightarrow> Some (fst r # fst rs, snd rs)))"

text \<open>Calls of PrependPythonPath one after the other, in the order of the list.\<close>

definition PrependPythonPath_calls :: "environment \<Rightarrow> string list \<Rightarrow> state \<Rightarrow> state" where
  "PrependPythonPath_calls env dirs s = fold (\<lambda>d. PrependPythonPath env (Some d)) dirs s"

text \<open>
  The text SetupVTKPythonPaths starts from when the VTK library is not located: the
  program name, encoded in the Python 3 build. \<open>None\<close> is a null pointer, which
  SetupVTKPythonPaths cannot turn into a string.
\<close>

definition program_name_text :: "environment \<Rightarrow> state \<Rightarrow> string option" where
  "program_name_text env s =
     (if build_py3 env then vtk_Py_EncodeLocale env (Py_GetProgramName s)
      else Py_GetProgramName s)"

definition vtk_library_located :: "environment \<Rightarrow> bool" where
  "vtk_library_located env =
     (build_shared_libs env \<and> GetLibraryForSymbol env ''GetVTKVersion'' \<noteq> [])"

definition startup_defined :: "environment \<Rightarrow> state \<Rightarrow> bool" where
  "startup_defined env s =
     (if vtk_library_located env then True
      else program_name_text env (if Py_IsInitialized s then s else SetupPythonPrefix env s)
             \<noteq> None)"

text \<open>The components the landmark walk starts from.\<close>

definition start_components :: "environment \<Rightarrow> state \<Rightarrow> string list" where
  "start_components env s =
     (if vtk_library_located env
      then SplitPath env (GetFilenamePath env (GetLibraryForSymbol env ''GetVTKVersion''))
      else (case program_name_text env s of
              None \<Rightarrow> []
            | Some vtkprefix \<Rightarrow> SplitPath env (CollapseFullPath env vtkprefix)))"

text \<open>
  The ancestors of a directory given by its components, deepest first, and what the walk
  tests at each.
\<close>

definition ancestors :: "string list \<Rightarrow> string list list" where
  "ancestors cs = map (\<lambda>n. take n cs) (rev [1..<Suc (length cs)])"

definition site_packages_dir :: "environment \<Rightarrow> string list \<Rightarrow> string" where
  "site_packages_dir env cs =
     JoinPath env cs @ VTK_PATH_SEPARATOR env @ VTK_PYTHON_SITE_PACKAGES_SUFFIX env"

definition has_landmark :: "environment \<Rightarrow> string list \<Rightarrow> bool" where
  "has_landmark env cs =
     FileExists env (site_packages_dir env cs @ VTK_PATH_SEPARATOR env @ landmark env)"

text \<open>The argument vectors of the calls of \<open>Py_Main\<close> in a trace.\<close>

fun Py_Main_arguments :: "event list \<Rightarrow> string option list list" where
  "Py_Main_arguments [] = []"
| "Py_Main_arguments (Py_Main_call args # es) = args # Py_Main_arguments es"
| "Py_Main_arguments (e # es) = Py_Main_arguments es"

text \<open>The events a flush of an accumulator consists of.\<close>

definition flush_events ::
  "(string \<Rightarrow> event) \<Rightarrow> event_id \<Rightarrow> string \<Rightarrow> nat option list \<Rightarrow> event list" where
  "flush_events display eventid text observers =
     (if text = [] then [] else display text # invoke_all observers eventid (Some text))"

definition written_to :: "py_fd \<Rightarrow> py_write list \<Rightarrow> string" where
  "written_to fd ws = concat (map snd (filter (\<lambda>w. fst w = fd) ws))"

text \<open>What a call of PyMain hands to \<open>Py_Main\<close>, and the verbosity it leaves.\<close>

definition PyMain_handed_arguments ::
  "environment \<Rightarrow> string option list \<Rightarrow> state \<Rightarrow> string option list list option" where
  "PyMain_handed_arguments env argv s =
     map_option (\<lambda>r. Py_Main_arguments (trace (snd r))) (PyMain env argv s)"

definition PyMain_verbosity ::
  "environment \<Rightarrow> string option list \<Rightarrow> state \<Rightarrow> int option" where
  "PyMain_verbosity env argv s =
     map_option (\<lambda>r. PythonVerboseFlag (snd r)) (PyMain env argv s)"

text \<open>
  Where the writes of a script go, given the streams of the state it runs in: the text
  that reaches the helper made with the given flag, and the writes that go to the
  console because their stream is the runtime's default.
\<close>

definition stream_of :: "state \<Rightarrow> py_fd \<Rightarrow> py_stream" where
  "stream_of s fd = (case fd of PyStdout \<Rightarrow> sys_stdout s | PyStderr \<Rightarrow> sys_stderr s)"

definition captured_by :: "bool \<Rightarrow> state \<Rightarrow> py_write list \<Rightarrow> string" where
  "captured_by dump_to_error s ws =
     concat (map snd (filter (\<lambda>w. stream_of s (fst w) = CaptureHelper dump_to_error) ws))"

definition console_writes :: "state \<Rightarrow> py_write list \<Rightarrow> event list" where
  "console_writes s ws =
     map (\<lambda>w. ConsoleWrite (fst w) (snd w))
         (filter (\<lambda>w. stream_of s (fst w) = DefaultStream) ws)"

text \<open>The calls in a trace that run code in the runtime.\<close>

fun is_runtime_call :: "event \<Rightarrow> bool" where
  "is_runtime_call (PyRun_SimpleString_call command) = True"
| "is_runtime_call (Py_Main_call args) = True"
| "is_runtime_call e = False"

definition runtime_calls :: "event list \<Rightarrow> event list" where
  "runtime_calls es = filter is_runtime_call es"

text \<open>The notifications of EnterEvent in a trace.\<close>

fun is_enter_notification :: "event \<Rightarrow> bool" where
  "is_enter_notification (InvokeEvent p EnterEvent calldata) = True"
| "is_enter_notification e = False"

definition enter_notifications :: "event list \<Rightarrow> event list" where
  "enter_notifications es = filter is_enter_notification es"

section \<open>A process at its start and an example installation\<close>

text \<open>The statics as the file initialises them, and a runtime that is not started.\<close>

definition process_start :: state where
  "process_start =
     \<lparr>InitializedOnce = False, ConsoleBuffering = False, StdErrBuffer = [],
      StdOutBuffer = [], PythonVerboseFlag = 0, GlobalInterpreters = [], PythonPaths = [],
      Py_IsInitialized = False, ProgramName = Some ''python'', sys_path = [],
      sys_stdout = DefaultStream, sys_stderr = DefaultStream, sys_stdin = DefaultStream,
      trace = []\<rparr>"

text \<open>
  An example of the collaborators, for evaluating the operations: a Unix build with
  shared libraries installed under \<open>/a/b/c\<close>, where the landmark file exists below
  \<open>/a/b/site-packages\<close> only.
\<close>

fun split_at_slashes :: "string \<Rightarrow> string \<Rightarrow> string list" where
  "split_at_slashes cur [] = (if cur = [] then [] else [cur])"
| "split_at_slashes cur (c # cs) =
     (if c = CHR ''/'' then (if cur = [] then [] else [cur]) @ split_at_slashes [] cs
      else split_at_slashes (cur @ [c]) cs)"

definition example_SplitPath :: "string \<Rightarrow> string list" where
  "example_SplitPath p =
     (case p of
        [] \<Rightarrow> [[]]
      | c # cs \<Rightarrow> if c = CHR ''/'' then ''/'' # split_at_slashes [] cs
                  else [] # split_at_slashes [] p)"

fun example_JoinPath :: "string list \<Rightarrow> string" where
  "example_JoinPath [] = []"
| "example_JoinPath [root] = root"
| "example_JoinPath (root # c # cs) = root @ c @ concat (map (\<lambda>x. ''/'' @ x) cs)"

definition example_env :: environment where
  "example_env =
     \<lparr>build_py3 = True, build_win32 = False, build_shared_libs = True,
      VTK_PYTHON_SITE_PACKAGES_SUFFIX = ''site-packages'',
      GetVTKSourceVersion = ''vtk version 8.2.0'',
      Py_GetPythonHome = None,
      Py_DecodeLocale =
        (\<lambda>a. case a of None \<Rightarrow> None
              | Some t \<Rightarrow> if CHR 0xFF \<in> set t then None else Some t),
      Py_EncodeLocale = (\<lambda>w. w),
      dl_library_of_symbol =
        (\<lambda>sym. if sym = ''GetVTKVersion'' then Some ''/a/b/c/libvtkCommonCore.so''
               else if sym = ''Py_SetProgramName'' then Some ''/usr/lib/libpython3.so''
               else None),
      GetModuleFileName = None,
      FileExists = (\<lambda>p. p = ''/a/b/site-packages/vtk/__init__.py''),
      FileIsDirectory = (\<lambda>p. p \<in> set [''/'', ''/a'', ''/a/b'', ''/a/b/c'', ''/a/b/site-packages'',
                                         ''/a/b/site-packages/vtk'']),
      SplitPath = example_SplitPath,
      JoinPath = example_JoinPath,
      CollapseFullPath = (\<lambda>p. p),
      GetFilenamePath = (\<lambda>p. example_JoinPath (butlast (example_SplitPath p))),
      default_sys_path = (\<lambda>name. [''/usr/lib/python3'']),
      PyRun_SimpleString =
        (\<lambda>s command.
           if command = ''print(1)'' then ([(PyStdout, ''1''), (PyStdout, endl)], 0)
           else if command = [] then ([], 0)
           else ([(PyStderr, ''SyntaxError''), (PyStderr, endl)], - 1)),
      Py_Main = (\<lambda>s args. ([], 0))\<rparr>"

section \<open>The observer registry: properties\<close>

lemma erase_first_match_remove1: "erase_first_match this ws = remove1 (Some this) ws"
  by (induction ws) auto

lemma invoke_all_live:
  "invoke_all ws eventid calldata =
     map (\<lambda>w. InvokeEvent (the w) eventid calldata) (filter (\<lambda>w. w \<noteq> None) ws)"
  by (induction ws) (auto split: option.splits)

lemma InvokeEvent_in_invoke_all:
  "InvokeEvent p e c \<in> set (invoke_all ws e' c') \<longleftrightarrow> Some p \<in> set ws \<and> e' = e \<and> c' = c"
  by (induction ws) (auto split: option.splits)

lemma not_registered_after_destroy:
  "Some this \<notin> set (GlobalInterpreters (destroy this s))"
  by (auto simp: destroy_def expire_weak_pointers_def)

lemma not_registered_after_destroy_expired_first:
  "Some this \<notin> set (GlobalInterpreters (destroy_expired_first this s))"
proof -
  have "Some this \<notin> set (GlobalInterpreters (expire_weak_pointers this s))"
    by (auto simp: expire_weak_pointers_def)
  then show ?thesis
    using notin_set_remove1
    by (simp add: destroy_expired_first_def vtkPythonInterpreter_dtor_def
        erase_first_match_remove1)
qed

lemma others_kept_by_erase:
  "q \<noteq> this \<Longrightarrow>
   filter (\<lambda>w. w = Some q) (erase_first_match this ws) = filter (\<lambda>w. w = Some q) ws"
  by (induction ws) auto

lemma others_kept_by_expire:
  "q \<noteq> this \<Longrightarrow>
   filter (\<lambda>w. w = Some q) (map (\<lambda>w. if w = Some this then None else w) ws)
     = filter (\<lambda>w. w = Some q) ws"
  by (induction ws) auto

text \<open>
  Claim C5. The constructor appends the instance to the registry and the destructor
  erases the first entry that is this instance. NotifyInterpreters invokes the event on
  the entries that are not null, in order, and on nothing else. A constructed instance
  is among them. After the instance is destroyed no entry refers to it, whichever of the
  destructor and the expiry of the weak pointers comes first, so a notification then
  does not reach it; the entries of every other instance are as before.
\<close>

theorem observer_registry_lifecycle:
  "GlobalInterpreters (vtkPythonInterpreter_ctor this s) = GlobalInterpreters s @ [Some this]
   \<and> GlobalInterpreters (vtkPythonInterpreter_dtor this s)
       = remove1 (Some this) (GlobalInterpreters s)
   \<and> trace (NotifyInterpreters eventid calldata s)
       = trace s @ map (\<lambda>w. InvokeEvent (the w) eventid calldata)
                     (filter (\<lambda>w. w \<noteq> None) (GlobalInterpreters s))
   \<and> InvokeEvent this eventid calldata
       \<in> set (invoke_all (GlobalInterpreters (vtkPythonInterpreter_ctor this s)) eventid calldata)
   \<and> Some this \<notin> set (GlobalInterpreters (destroy this s))
   \<and> Some this \<notin> set (GlobalInterpreters (destroy_expired_first this s))
   \<and> InvokeEvent this eventid calldata
       \<notin> set (invoke_all (GlobalInterpreters (destroy this s)) eventid calldata)
   \<and> InvokeEvent this eventid calldata
       \<notin> set (invoke_all (GlobalInterpreters (destroy_expired_first this s)) eventid calldata)
   \<and> (\<forall>q. q \<noteq> this \<longrightarrow>
         filter (\<lambda>w. w = Some q) (GlobalInterpreters (destroy this s))
           = filter (\<lambda>w. w = Some q) (GlobalInterpreters s))"
proof (intro conjI)
  show "trace (NotifyInterpreters eventid calldata s)
       = trace s @ map (\<lambda>w. InvokeEvent (the w) eventid calldata)
                     (filter (\<lambda>w. w \<noteq> None) (GlobalInterpreters s))"
    by (simp only: NotifyInterpreters_def invoke_all_live) simp
  show "\<forall>q. q \<noteq> this \<longrightarrow>
         filter (\<lambda>w. w = Some q) (GlobalInterpreters (destroy this s))
           = filter (\<lambda>w. w = Some q) (GlobalInterpreters s)"
    by (simp add: destroy_def expire_weak_pointers_def vtkPythonInterpreter_dtor_def
        others_kept_by_erase others_kept_by_expire)
qed (simp_all add: vtkPythonInterpreter_ctor_def vtkPythonInterpreter_dtor_def
      erase_first_match_remove1 InvokeEvent_in_invoke_all not_registered_after_destroy
      not_registered_after_destroy_expired_first)

theorem observer_registry_lifecycle_witness:
  "(2::nat) \<noteq> 1
   \<and> trace (NotifyInterpreters ErrorEvent (Some ''x'')
              (vtkPythonInterpreter_ctor 2 (vtkPythonInterpreter_ctor 1 process_start)))
       = [InvokeEvent 1 ErrorEvent (Some ''x''), InvokeEvent 2 ErrorEvent (Some ''x'')]
   \<and> trace (NotifyInterpreters ErrorEvent (Some ''x'')
              (destroy 1 (vtkPythonInterpreter_ctor 2 (vtkPythonInterpreter_ctor 1 process_start))))
       = [InvokeEvent 2 ErrorEvent (Some ''x'')]
   \<and> filter (\<lambda>w. w = Some 2)
        (GlobalInterpreters
           (destroy 1 (vtkPythonInterpreter_ctor 2 (vtkPythonInterpreter_ctor 1 process_start))))
       = [Some 2]"
  using observer_registry_lifecycle
          [of 1 "vtkPythonInterpreter_ctor 2 (vtkPythonInterpreter_ctor 1 process_start)"
              ErrorEvent "Some ''x''"]
  by (simp add: vtkPythonInterpreter_ctor_def process_start_def NotifyInterpreters_def
      destroy_def expire_weak_pointers_def vtkPythonInterpreter_dtor_def)

section \<open>Null directory and PYTHONHOME\<close>

text \<open>
  Claim C10. PrependPythonPath with a null directory returns the state it was given:
  nothing is appended to PythonPaths and \<open>sys.path\<close> is not touched, whether or not the
  runtime is started.
\<close>

theorem PrependPythonPath_null_is_noop:
  "PrependPythonPath env None s = s"
  by (simp add: PrependPythonPath_def)

text \<open>
  Claim C8. When the runtime reports a Python home (PYTHONHOME is set),
  SetupPythonPrefix changes no part of the state but the output on \<open>cout\<close>, where the
  one debug line appears when the verbose flag is positive. The program name stays as
  it was, and the result does not depend on what the library lookup would return.
\<close>

theorem SetupPythonPrefix_keeps_PYTHONHOME:
  assumes "Py_GetPythonHome env \<noteq> None"
  shows "SetupPythonPrefix env s = s\<lparr>trace := trace (SetupPythonPrefix env s)\<rparr>
       \<and> trace (SetupPythonPrefix env s) =
           trace s @ (if PythonVerboseFlag s > 0
                      then [Cout (''# vtk: `PYTHONHOME` already set. Leaving unchanged.'' @ endl)]
                      else [])
       \<and> ProgramName (SetupPythonPrefix env s) = ProgramName s"
  using assms by (simp add: SetupPythonPrefix_def VTKPY_DEBUG_MESSAGE_def cout_def)

theorem SetupPythonPrefix_keeps_PYTHONHOME_witness:
  "Py_GetPythonHome (example_env\<lparr>Py_GetPythonHome := Some ''/opt/python''\<rparr>) \<noteq> None
   \<and> SetupPythonPrefix (example_env\<lparr>Py_GetPythonHome := Some ''/opt/python''\<rparr>) process_start
       = process_start
   \<and> SetupPythonPrefix example_env process_start
       = process_start\<lparr>ProgramName := Some ''/usr/lib/vtkpython''\<rparr>"
  using SetupPythonPrefix_keeps_PYTHONHOME
          [of "example_env\<lparr>Py_GetPythonHome := Some ''/opt/python''\<rparr>" process_start]
  by (simp add: example_env_def process_start_def SetupPythonPrefix_def VTKPY_DEBUG_MESSAGE_def
      GetLibraryForSymbol_def vtk_Py_EncodeLocale_def vtk_Py_DecodeLocale_def
      Py_GetProgramName_def Py_SetProgramName_def VTK_PATH_SEPARATOR_def example_SplitPath_def)

section \<open>Which parts of the state each operation leaves alone\<close>

lemma runtime_calls_simps [simp]:
  "runtime_calls [] = []"
  "runtime_calls (e # es) = (if is_runtime_call e then e # runtime_calls es else runtime_calls es)"
  by (simp_all add: runtime_calls_def)

lemma runtime_calls_append [simp]:
  "runtime_calls (xs @ ys) = runtime_calls xs @ runtime_calls ys"
  by (simp add: runtime_calls_def)

lemma cout_frame [simp]:
  "InitializedOnce (cout x s) = InitializedOnce s"
  "ConsoleBuffering (cout x s) = ConsoleBuffering s"
  "StdErrBuffer (cout x s) = StdErrBuffer s"
  "StdOutBuffer (cout x s) = StdOutBuffer s"
  "PythonVerboseFlag (cout x s) = PythonVerboseFlag s"
  "GlobalInterpreters (cout x s) = GlobalInterpreters s"
  "PythonPaths (cout x s) = PythonPaths s"
  "Py_IsInitialized (cout x s) = Py_IsInitialized s"
  "ProgramName (cout x s) = ProgramName s"
  "sys_path (cout x s) = sys_path s"
  "sys_stdout (cout x s) = sys_stdout s"
  "sys_stderr (cout x s) = sys_stderr s"
  "sys_stdin (cout x s) = sys_stdin s"
  "runtime_calls (trace (cout x s)) = runtime_calls (trace s)"
  by (simp_all add: cout_def)

lemma VTKPY_DEBUG_MESSAGE_frame [simp]:
  "InitializedOnce (VTKPY_DEBUG_MESSAGE x s) = InitializedOnce s"
  "ConsoleBuffering (VTKPY_DEBUG_MESSAGE x s) = ConsoleBuffering s"
  "StdErrBuffer (VTKPY_DEBUG_MESSAGE x s) = StdErrBuffer s"
  "StdOutBuffer (VTKPY_DEBUG_MESSAGE x s) = StdOutBuffer s"
  "PythonVerboseFlag (VTKPY_DEBUG_MESSAGE x s) = PythonVerboseFlag s"
  "GlobalInterpreters (VTKPY_DEBUG_MESSAGE x s) = GlobalInterpreters s"
  "PythonPaths (VTKPY_DEBUG_MESSAGE x s) = PythonPaths s"
  "Py_IsInitialized (VTKPY_DEBUG_MESSAGE x s) = Py_IsInitialized s"
  "ProgramName (VTKPY_DEBUG_MESSAGE x s) = ProgramName s"
  "sys_path (VTKPY_DEBUG_MESSAGE x s) = sys_path s"
  "sys_stdout (VTKPY_DEBUG_MESSAGE x s) = sys_stdout s"
  "sys_stderr (VTKPY_DEBUG_MESSAGE x s) = sys_stderr s"
  "sys_stdin (VTKPY_DEBUG_MESSAGE x s) = sys_stdin s"
  "runtime_calls (trace (VTKPY_DEBUG_MESSAGE x s)) = runtime_calls (trace s)"
  by (simp_all add: VTKPY_DEBUG_MESSAGE_def)

lemma VTKPY_DEBUG_MESSAGE_VV_frame [simp]:
  "InitializedOnce (VTKPY_DEBUG_MESSAGE_VV x s) = InitializedOnce s"
  "ConsoleBuffering (VTKPY_DEBUG_MESSAGE_VV x s) = ConsoleBuffering s"
  "StdErrBuffer (VTKPY_DEBUG_MESSAGE_VV x s) = StdErrBuffer s"
  "StdOutBuffer (VTKPY_DEBUG_MESSAGE_VV x s) = StdOutBuffer s"
  "PythonVerboseFlag (VTKPY_DEBUG_MESSAGE_VV x s) = PythonVerboseFlag s"
  "GlobalInterpreters (VTKPY_DEBUG_MESSAGE_VV x s) = GlobalInterpreters s"
  "PythonPaths (VTKPY_DEBUG_MESSAGE_VV x s) = PythonPaths s"
  "Py_IsInitialized (VTKPY_DEBUG_MESSAGE_VV x s) = Py_IsInitialized s"
  "ProgramName (VTKPY_DEBUG_MESSAGE_VV x s) = ProgramName s"
  "sys_path (VTKPY_DEBUG_MESSAGE_VV x s) = sys_path s"
  "sys_stdout (VTKPY_DEBUG_MESSAGE_VV x s) = sys_stdout s"
  "sys_stderr (VTKPY_DEBUG_MESSAGE_VV x s) = sys_stderr s"
  "sys_stdin (VTKPY_DEBUG_MESSAGE_VV x s) = sys_stdin s"
  "runtime_calls (trace (VTKPY_DEBUG_MESSAGE_VV x s)) = runtime_calls (trace s)"
  by (simp_all add: VTKPY_DEBUG_MESSAGE_VV_def)

lemma runtime_calls_invoke_all [simp]: "runtime_calls (invoke_all ws e c) = []"
  by (induction ws) (auto simp: split: option.splits)

lemma NotifyInterpreters_frame [simp]:
  "InitializedOnce (NotifyInterpreters e c s) = InitializedOnce s"
  "ConsoleBuffering (NotifyInterpreters e c s) = ConsoleBuffering s"
  "StdErrBuffer (NotifyInterpreters e c s) = StdErrBuffer s"
  "StdOutBuffer (NotifyInterpreters e c s) = StdOutBuffer s"
  "PythonVerboseFlag (NotifyInterpreters e c s) = PythonVerboseFlag s"
  "GlobalInterpreters (NotifyInterpreters e c s) = GlobalInterpreters s"
  "PythonPaths (NotifyInterpreters e c s) = PythonPaths s"
  "Py_IsInitialized (NotifyInterpreters e c s) = Py_IsInitialized s"
  "ProgramName (NotifyInterpreters e c s) = ProgramName s"
  "sys_path (NotifyInterpreters e c s) = sys_path s"
  "sys_stdout (NotifyInterpreters e c s) = sys_stdout s"
  "sys_stderr (NotifyInterpreters e c s) = sys_stderr s"
  "sys_stdin (NotifyInterpreters e c s) = sys_stdin s"
  "runtime_calls (trace (NotifyInterpreters e c s)) = runtime_calls (trace s)"
  by (simp_all add: NotifyInterpreters_def)

lemma vtkOutputWindowDisplayText_frame [simp]:
  "InitializedOnce (vtkOutputWindowDisplayText txt s) = InitializedOnce s"
  "ConsoleBuffering (vtkOutputWindowDisplayText txt s) = ConsoleBuffering s"
  "StdErrBuffer (vtkOutputWindowDisplayText txt s) = StdErrBuffer s"
  "StdOutBuffer (vtkOutputWindowDisplayText txt s) = StdOutBuffer s"
  "PythonVerboseFlag (vtkOutputWindowDisplayText txt s) = PythonVerboseFlag s"
  "GlobalInterpreters (vtkOutputWindowDisplayText txt s) = GlobalInterpreters s"
  "PythonPaths (vtkOutputWindowDisplayText txt s) = PythonPaths s"
  "Py_IsInitialized (vtkOutputWindowDisplayText txt s) = Py_IsInitialized s"
  "ProgramName (vtkOutputWindowDisplayText txt s) = ProgramName s"
  "sys_path (vtkOutputWindowDisplayText txt s) = sys_path s"
  "sys_stdout (vtkOutputWindowDisplayText txt s) = sys_stdout s"
  "sys_stderr (vtkOutputWindowDisplayText txt s) = sys_stderr s"
  "sys_stdin (vtkOutputWindowDisplayText txt s) = sys_stdin s"
  "runtime_calls (trace (vtkOutputWindowDisplayText txt s)) = runtime_calls (trace s)"
  by (simp_all add: vtkOutputWindowDisplayText_def)

lemma vtkOutputWindowDisplayErrorText_frame [simp]:
  "InitializedOnce (vtkOutputWindowDisplayErrorText txt s) = InitializedOnce s"
  "ConsoleBuffering (vtkOutputWindowDisplayErrorText txt s) = ConsoleBuffering s"
  "StdErrBuffer (vtkOutputWindowDisplayErrorText txt s) = StdErrBuffer s"
  "StdOutBuffer (vtkOutputWindowDisplayErrorText txt s) = StdOutBuffer s"
  "PythonVerboseFlag (vtkOutputWindowDisplayErrorText txt s) = PythonVerboseFlag s"
  "GlobalInterpreters (vtkOutputWindowDisplayErrorText txt s) = GlobalInterpreters s"
  "PythonPaths (vtkOutputWindowDisplayErrorText txt s) = PythonPaths s"
  "Py_IsInitialized (vtkOutputWindowDisplayErrorText txt s) = Py_IsInitialized s"
  "ProgramName (vtkOutputWindowDisplayErrorText txt s) = ProgramName s"
  "sys_path (vtkOutputWindowDisplayErrorText txt s) = sys_path s"
  "sys_stdout (vtkOutputWindowDisplayErrorText txt s) = sys_stdout s"
  "sys_stderr (vtkOutputWindowDisplayErrorText txt s) = sys_stderr s"
  "sys_stdin (vtkOutputWindowDisplayErrorText txt s) = sys_stdin s"
  "runtime_calls (trace (vtkOutputWindowDisplayErrorText txt s)) = runtime_calls (trace s)"
  by (simp_all add: vtkOutputWindowDisplayErrorText_def)

lemma vtkPrependPythonPath_frame [simp]:
  "InitializedOnce (vtkPrependPythonPath p s) = InitializedOnce s"
  "ConsoleBuffering (vtkPrependPythonPath p s) = ConsoleBuffering s"
  "StdErrBuffer (vtkPrependPythonPath p s) = StdErrBuffer s"
  "StdOutBuffer (vtkPrependPythonPath p s) = StdOutBuffer s"
  "PythonVerboseFlag (vtkPrependPythonPath p s) = PythonVerboseFlag s"
  "GlobalInterpreters (vtkPrependPythonPath p s) = GlobalInterpreters s"
  "PythonPaths (vtkPrependPythonPath p s) = PythonPaths s"
  "Py_IsInitialized (vtkPrependPythonPath p s) = Py_IsInitialized s"
  "ProgramName (vtkPrependPythonPath p s) = ProgramName s"
  "sys_stdout (vtkPrependPythonPath p s) = sys_stdout s"
  "sys_stderr (vtkPrependPythonPath p s) = sys_stderr s"
  "sys_stdin (vtkPrependPythonPath p s) = sys_stdin s"
  "runtime_calls (trace (vtkPrependPythonPath p s)) = runtime_calls (trace s)"
  by (simp_all add: vtkPrependPythonPath_def Let_def)

lemma vtkSafePrependPythonPath_frame [simp]:
  "InitializedOnce (vtkSafePrependPythonPath env p s) = InitializedOnce s"
  "ConsoleBuffering (vtkSafePrependPythonPath env p s) = ConsoleBuffering s"
  "StdErrBuffer (vtkSafePrependPythonPath env p s) = StdErrBuffer s"
  "StdOutBuffer (vtkSafePrependPythonPath env p s) = StdOutBuffer s"
  "PythonVerboseFlag (vtkSafePrependPythonPath env p s) = PythonVerboseFlag s"
  "GlobalInterpreters (vtkSafePrependPythonPath env p s) = GlobalInterpreters s"
  "PythonPaths (vtkSafePrependPythonPath env p s) = PythonPaths s"
  "Py_IsInitialized (vtkSafePrependPythonPath env p s) = Py_IsInitialized s"
  "ProgramName (vtkSafePrependPythonPath env p s) = ProgramName s"
  "sys_stdout (vtkSafePrependPythonPath env p s) = sys_stdout s"
  "sys_stderr (vtkSafePrependPythonPath env p s) = sys_stderr s"
  "sys_stdin (vtkSafePrependPythonPath env p s) = sys_stdin s"
  "runtime_calls (trace (vtkSafePrependPythonPath env p s)) = runtime_calls (trace s)"
  by (simp_all add: vtkSafePrependPythonPath_def Let_def)

lemma fold_vtkPrependPythonPath_frame [simp]:
  "InitializedOnce (fold vtkPrependPythonPath ps s) = InitializedOnce s"
  "ConsoleBuffering (fold vtkPrependPythonPath ps s) = ConsoleBuffering s"
  "StdErrBuffer (fold vtkPrependPythonPath ps s) = StdErrBuffer s"
  "StdOutBuffer (fold vtkPrependPythonPath ps s) = StdOutBuffer s"
  "PythonVerboseFlag (fold vtkPrependPythonPath ps s) = PythonVerboseFlag s"
  "GlobalInterpreters (fold vtkPrependPythonPath ps s) = GlobalInterpreters s"
  "PythonPaths (fold vtkPrependPythonPath ps s) = PythonPaths s"
  "Py_IsInitialized (fold vtkPrependPythonPath ps s) = Py_IsInitialized s"
  "ProgramName (fold vtkPrependPythonPath ps s) = ProgramName s"
  "sys_stdout (fold vtkPrependPythonPath ps s) = sys_stdout s"
  "sys_stderr (fold vtkPrependPythonPath ps s) = sys_stderr s"
  "sys_stdin (fold vtkPrependPythonPath ps s) = sys_stdin s"
  "runtime_calls (trace (fold vtkPrependPythonPath ps s)) = runtime_calls (trace s)"
  by (induction ps arbitrary: s; simp)+

lemma WriteStdOut_frame [simp]:
  "InitializedOnce (WriteStdOut txt s) = InitializedOnce s"
  "ConsoleBuffering (WriteStdOut txt s) = ConsoleBuffering s"
  "StdErrBuffer (WriteStdOut txt s) = StdErrBuffer s"
  "PythonVerboseFlag (WriteStdOut txt s) = PythonVerboseFlag s"
  "GlobalInterpreters (WriteStdOut txt s) = GlobalInterpreters s"
  "PythonPaths (WriteStdOut txt s) = PythonPaths s"
  "Py_IsInitialized (WriteStdOut txt s) = Py_IsInitialized s"
  "ProgramName (WriteStdOut txt s) = ProgramName s"
  "sys_path (WriteStdOut txt s) = sys_path s"
  "sys_stdout (WriteStdOut txt s) = sys_stdout s"
  "sys_stderr (WriteStdOut txt s) = sys_stderr s"
  "sys_stdin (WriteStdOut txt s) = sys_stdin s"
  "runtime_calls (trace (WriteStdOut txt s)) = runtime_calls (trace s)"
  by (simp_all add: WriteStdOut_def)

lemma WriteStdErr_frame [simp]:
  "InitializedOnce (WriteStdErr txt s) = InitializedOnce s"
  "ConsoleBuffering (WriteStdErr txt s) = ConsoleBuffering s"
  "StdOutBuffer (WriteStdErr txt s) = StdOutBuffer s"
  "PythonVerboseFlag (WriteStdErr txt s) = PythonVerboseFlag s"
  "GlobalInterpreters (WriteStdErr txt s) = GlobalInterpreters s"
  "PythonPaths (WriteStdErr txt s) = PythonPaths s"
  "Py_IsInitialized (WriteStdErr txt s) = Py_IsInitialized s"
  "ProgramName (WriteStdErr txt s) = ProgramName s"
  "sys_path (WriteStdErr txt s) = sys_path s"
  "sys_stdout (WriteStdErr txt s) = sys_stdout s"
  "sys_stderr (WriteStdErr txt s) = sys_stderr s"
  "sys_stdin (WriteStdErr txt s) = sys_stdin s"
  "runtime_calls (trace (WriteStdErr txt s)) = runtime_calls (trace s)"
  by (simp_all add: WriteStdErr_def)

lemma stream_write_frame [simp]:
  "InitializedOnce (stream_write w s) = InitializedOnce s"
  "ConsoleBuffering (stream_write w s) = ConsoleBuffering s"
  "PythonVerboseFlag (stream_write w s) = PythonVerboseFlag s"
  "GlobalInterpreters (stream_write w s) = GlobalInterpreters s"
  "PythonPaths (stream_write w s) = PythonPaths s"
  "Py_IsInitialized (stream_write w s) = Py_IsInitialized s"
  "ProgramName (stream_write w s) = ProgramName s"
  "sys_path (stream_write w s) = sys_path s"
  "sys_stdout (stream_write w s) = sys_stdout s"
  "sys_stderr (stream_write w s) = sys_stderr s"
  "sys_stdin (stream_write w s) = sys_stdin s"
  "runtime_calls (trace (stream_write w s)) = runtime_calls (trace s)"
  by (simp_all add: stream_write_def split: py_stream.splits)

lemma fold_stream_write_frame [simp]:
  "InitializedOnce (fold stream_write ws s) = InitializedOnce s"
  "ConsoleBuffering (fold stream_write ws s) = ConsoleBuffering s"
  "PythonVerboseFlag (fold stream_write ws s) = PythonVerboseFlag s"
  "GlobalInterpreters (fold stream_write ws s) = GlobalInterpreters s"
  "PythonPaths (fold stream_write ws s) = PythonPaths s"
  "Py_IsInitialized (fold stream_write ws s) = Py_IsInitialized s"
  "ProgramName (fold stream_write ws s) = ProgramName s"
  "sys_path (fold stream_write ws s) = sys_path s"
  "sys_stdout (fold stream_write ws s) = sys_stdout s"
  "sys_stderr (fold stream_write ws s) = sys_stderr s"
  "sys_stdin (fold stream_write ws s) = sys_stdin s"
  "runtime_calls (trace (fold stream_write ws s)) = runtime_calls (trace s)"
  by (induction ws arbitrary: s; simp)+

lemma run_PyRun_SimpleString_frame [simp]:
  "InitializedOnce (snd (run_PyRun_SimpleString env b s)) = InitializedOnce s"
  "ConsoleBuffering (snd (run_PyRun_SimpleString env b s)) = ConsoleBuffering s"
  "PythonVerboseFlag (snd (run_PyRun_SimpleString env b s)) = PythonVerboseFlag s"
  "GlobalInterpreters (snd (run_PyRun_SimpleString env b s)) = GlobalInterpreters s"
  "PythonPaths (snd (run_PyRun_SimpleString env b s)) = PythonPaths s"
  "Py_IsInitialized (snd (run_PyRun_SimpleString env b s)) = Py_IsInitialized s"
  "ProgramName (snd (run_PyRun_SimpleString env b s)) = ProgramName s"
  "sys_path (snd (run_PyRun_SimpleString env b s)) = sys_path s"
  "sys_stdout (snd (run_PyRun_SimpleString env b s)) = sys_stdout s"
  "sys_stderr (snd (run_PyRun_SimpleString env b s)) = sys_stderr s"
  "sys_stdin (snd (run_PyRun_SimpleString env b s)) = sys_stdin s"
  by (simp_all add: run_PyRun_SimpleString_def)

lemma run_PyRun_SimpleString_calls [simp]:
  "runtime_calls (trace (snd (run_PyRun_SimpleString env b s)))
     = runtime_calls (trace s) @ [PyRun_SimpleString_call b]"
  by (simp add: run_PyRun_SimpleString_def)

lemma run_Py_Main_frame [simp]:
  "InitializedOnce (snd (run_Py_Main env args s)) = InitializedOnce s"
  "ConsoleBuffering (snd (run_Py_Main env args s)) = ConsoleBuffering s"
  "PythonVerboseFlag (snd (run_Py_Main env args s)) = PythonVerboseFlag s"
  "GlobalInterpreters (snd (run_Py_Main env args s)) = GlobalInterpreters s"
  "PythonPaths (snd (run_Py_Main env args s)) = PythonPaths s"
  "Py_IsInitialized (snd (run_Py_Main env args s)) = Py_IsInitialized s"
  "ProgramName (snd (run_Py_Main env args s)) = ProgramName s"
  "sys_path (snd (run_Py_Main env args s)) = sys_path s"
  "sys_stdout (snd (run_Py_Main env args s)) = sys_stdout s"
  "sys_stderr (snd (run_Py_Main env args s)) = sys_stderr s"
  "sys_stdin (snd (run_Py_Main env args s)) = sys_stdin s"
  by (simp_all add: run_Py_Main_def)

lemma run_Py_Main_calls [simp]:
  "runtime_calls (trace (snd (run_Py_Main env args s)))
     = runtime_calls (trace s) @ [Py_Main_call args]"
  by (simp add: run_Py_Main_def)

lemma execute_script_frame [simp]:
  "InitializedOnce (snd (execute_script env script s)) = InitializedOnce s"
  "PythonVerboseFlag (snd (execute_script env script s)) = PythonVerboseFlag s"
  "GlobalInterpreters (snd (execute_script env script s)) = GlobalInterpreters s"
  "PythonPaths (snd (execute_script env script s)) = PythonPaths s"
  "Py_IsInitialized (snd (execute_script env script s)) = Py_IsInitialized s"
  "ProgramName (snd (execute_script env script s)) = ProgramName s"
  "sys_path (snd (execute_script env script s)) = sys_path s"
  "sys_stdout (snd (execute_script env script s)) = sys_stdout s"
  "sys_stderr (snd (execute_script env script s)) = sys_stderr s"
  "sys_stdin (snd (execute_script env script s)) = sys_stdin s"
  by (simp_all add: execute_script_def Let_def)

lemma execute_script_calls [simp]:
  "runtime_calls (trace (snd (execute_script env script s)))
     = runtime_calls (trace s)
       @ [PyRun_SimpleString_call
            (strip_carriage_returns (case script of None \<Rightarrow> [] | Some t \<Rightarrow> t))]"
  by (simp add: execute_script_def Let_def)

lemma execute_script_clears [simp]:
  "ConsoleBuffering (snd (execute_script env script s)) = False"
  "StdOutBuffer (snd (execute_script env script s)) = []"
  "StdErrBuffer (snd (execute_script env script s)) = []"
  by (simp_all add: execute_script_def Let_def)

lemma Py_SetProgramName_frame [simp]:
  "InitializedOnce (Py_SetProgramName n s) = InitializedOnce s"
  "ConsoleBuffering (Py_SetProgramName n s) = ConsoleBuffering s"
  "StdErrBuffer (Py_SetProgramName n s) = StdErrBuffer s"
  "StdOutBuffer (Py_SetProgramName n s) = StdOutBuffer s"
  "PythonVerboseFlag (Py_SetProgramName n s) = PythonVerboseFlag s"
  "GlobalInterpreters (Py_SetProgramName n s) = GlobalInterpreters s"
  "PythonPaths (Py_SetProgramName n s) = PythonPaths s"
  "Py_IsInitialized (Py_SetProgramName n s) = Py_IsInitialized s"
  "sys_path (Py_SetProgramName n s) = sys_path s"
  "sys_stdout (Py_SetProgramName n s) = sys_stdout s"
  "sys_stderr (Py_SetProgramName n s) = sys_stderr s"
  "sys_stdin (Py_SetProgramName n s) = sys_stdin s"
  "runtime_calls (trace (Py_SetProgramName n s)) = runtime_calls (trace s)"
  by (simp_all add: Py_SetProgramName_def)

lemma SetupPythonPrefix_frame [simp]:
  "InitializedOnce (SetupPythonPrefix env s) = InitializedOnce s"
  "ConsoleBuffering (SetupPythonPrefix env s) = ConsoleBuffering s"
  "StdErrBuffer (SetupPythonPrefix env s) = StdErrBuffer s"
  "StdOutBuffer (SetupPythonPrefix env s) = StdOutBuffer s"
  "PythonVerboseFlag (SetupPythonPrefix env s) = PythonVerboseFlag s"
  "GlobalInterpreters (SetupPythonPrefix env s) = GlobalInterpreters s"
  "PythonPaths (SetupPythonPrefix env s) = PythonPaths s"
  "Py_IsInitialized (SetupPythonPrefix env s) = Py_IsInitialized s"
  "sys_path (SetupPythonPrefix env s) = sys_path s"
  "sys_stdout (SetupPythonPrefix env s) = sys_stdout s"
  "sys_stderr (SetupPythonPrefix env s) = sys_stderr s"
  "sys_stdin (SetupPythonPrefix env s) = sys_stdin s"
  "runtime_calls (trace (SetupPythonPrefix env s)) = runtime_calls (trace s)"
  by (simp_all add: SetupPythonPrefix_def Let_def)

lemma Py_InitializeEx_frame [simp]:
  "InitializedOnce (Py_InitializeEx env i s) = InitializedOnce s"
  "ConsoleBuffering (Py_InitializeEx env i s) = ConsoleBuffering s"
  "StdErrBuffer (Py_InitializeEx env i s) = StdErrBuffer s"
  "StdOutBuffer (Py_InitializeEx env i s) = StdOutBuffer s"
  "PythonVerboseFlag (Py_InitializeEx env i s) = PythonVerboseFlag s"
  "GlobalInterpreters (Py_InitializeEx env i s) = GlobalInterpreters s"
  "PythonPaths (Py_InitializeEx env i s) = PythonPaths s"
  "ProgramName (Py_InitializeEx env i s) = ProgramName s"
  "runtime_calls (trace (Py_InitializeEx env i s)) = runtime_calls (trace s)"
  by (simp_all add: Py_InitializeEx_def)

lemma start_runtime_frame [simp]:
  "InitializedOnce (start_runtime env i s) = InitializedOnce s"
  "ConsoleBuffering (start_runtime env i s) = ConsoleBuffering s"
  "StdErrBuffer (start_runtime env i s) = StdErrBuffer s"
  "StdOutBuffer (start_runtime env i s) = StdOutBuffer s"
  "PythonVerboseFlag (start_runtime env i s) = PythonVerboseFlag s"
  "GlobalInterpreters (start_runtime env i s) = GlobalInterpreters s"
  "PythonPaths (start_runtime env i s) = PythonPaths s"
  "runtime_calls (trace (start_runtime env i s)) = runtime_calls (trace s)"
  by (simp_all add: start_runtime_def Let_def)

lemma start_runtime_started [simp]: "Py_IsInitialized (start_runtime env i s)"
  by (simp add: start_runtime_def Let_def Py_InitializeEx_def)

lemma start_runtime_running: "Py_IsInitialized s \<Longrightarrow> start_runtime env i s = s"
  by (simp add: start_runtime_def)

lemma start_runtime_ProgramName:
  "ProgramName (start_runtime env i s)
     = ProgramName (if Py_IsInitialized s then s else SetupPythonPrefix env s)"
  by (simp add: start_runtime_def Let_def)

lemma bind_streams_frame [simp]:
  "InitializedOnce (bind_streams s) = InitializedOnce s"
  "ConsoleBuffering (bind_streams s) = ConsoleBuffering s"
  "StdErrBuffer (bind_streams s) = StdErrBuffer s"
  "StdOutBuffer (bind_streams s) = StdOutBuffer s"
  "PythonVerboseFlag (bind_streams s) = PythonVerboseFlag s"
  "GlobalInterpreters (bind_streams s) = GlobalInterpreters s"
  "PythonPaths (bind_streams s) = PythonPaths s"
  "Py_IsInitialized (bind_streams s) = Py_IsInitialized s"
  "ProgramName (bind_streams s) = ProgramName s"
  "sys_path (bind_streams s) = sys_path s"
  "runtime_calls (trace (bind_streams s)) = runtime_calls (trace s)"
  by (simp_all add: bind_streams_def)

lemma bind_streams_bound [simp]:
  "sys_stdout (bind_streams s) = CaptureHelper False"
  "sys_stderr (bind_streams s) = CaptureHelper True"
  "sys_stdin (bind_streams s) = CaptureHelper False"
  by (simp_all add: bind_streams_def)

lemma landmark_walk_frame [simp]:
  "InitializedOnce (landmark_walk env cs s) = InitializedOnce s"
  "ConsoleBuffering (landmark_walk env cs s) = ConsoleBuffering s"
  "StdErrBuffer (landmark_walk env cs s) = StdErrBuffer s"
  "StdOutBuffer (landmark_walk env cs s) = StdOutBuffer s"
  "PythonVerboseFlag (landmark_walk env cs s) = PythonVerboseFlag s"
  "GlobalInterpreters (landmark_walk env cs s) = GlobalInterpreters s"
  "PythonPaths (landmark_walk env cs s) = PythonPaths s"
  "Py_IsInitialized (landmark_walk env cs s) = Py_IsInitialized s"
  "ProgramName (landmark_walk env cs s) = ProgramName s"
  "sys_stdout (landmark_walk env cs s) = sys_stdout s"
  "sys_stderr (landmark_walk env cs s) = sys_stderr s"
  "sys_stdin (landmark_walk env cs s) = sys_stdin s"
  "runtime_calls (trace (landmark_walk env cs s)) = runtime_calls (trace s)"
  by (induction env cs s rule: landmark_walk.induct; subst landmark_walk.simps; simp add: Let_def)+

section \<open>Initialize: first call and later calls\<close>

lemma program_name_text_cong:
  "ProgramName s = ProgramName s' \<Longrightarrow> program_name_text env s = program_name_text env s'"
  by (simp add: program_name_text_def Py_GetProgramName_def)

lemma SetupVTKPythonPaths_frame:
  assumes "SetupVTKPythonPaths env s = Some s'"
  shows "InitializedOnce s' = InitializedOnce s" "ConsoleBuffering s' = ConsoleBuffering s"
    "StdErrBuffer s' = StdErrBuffer s" "StdOutBuffer s' = StdOutBuffer s"
    "PythonVerboseFlag s' = PythonVerboseFlag s" "GlobalInterpreters s' = GlobalInterpreters s"
    "PythonPaths s' = PythonPaths s" "Py_IsInitialized s' = Py_IsInitialized s"
    "ProgramName s' = ProgramName s" "sys_stdout s' = sys_stdout s"
    "sys_stderr s' = sys_stderr s" "sys_stdin s' = sys_stdin s"
    "runtime_calls (trace s') = runtime_calls (trace s)"
  using assms
  by (auto simp: SetupVTKPythonPaths_def Let_def split: if_splits option.splits)

lemma SetupVTKPythonPaths_returns:
  "SetupVTKPythonPaths env s \<noteq> None
     \<longleftrightarrow> vtk_library_located env \<or> program_name_text env s \<noteq> None"
  by (auto simp: SetupVTKPythonPaths_def Let_def vtk_library_located_def program_name_text_def
      Py_GetProgramName_def split: option.splits)

lemma Initialize_once:
  "InitializedOnce s \<Longrightarrow> Initialize env i s = Some (False, start_runtime env i s)"
  by (subst Initialize.simps) simp

lemma RunSimpleString_once:
  "InitializedOnce s \<Longrightarrow>
   RunSimpleString env script s = Some (execute_script env script (start_runtime env 1 s))"
  by (subst RunSimpleString.simps) (simp add: Initialize_once)

lemma Initialize_first:
  "\<not> InitializedOnce s \<Longrightarrow>
   Initialize env i s =
     (case SetupVTKPythonPaths env
             (bind_streams (snd (execute_script env (Some [])
                ((start_runtime env i s)\<lparr>InitializedOnce := True\<rparr>)))) of
        None \<Rightarrow> None
      | Some s2 \<Rightarrow>
          Some (True, NotifyInterpreters EnterEvent None
                        (fold vtkPrependPythonPath (PythonPaths s2) s2)))"
  by (subst Initialize.simps) (simp add: RunSimpleString_once start_runtime_running)

lemma startup_defined_setup:
  assumes "startup_defined env s"
  shows "SetupVTKPythonPaths env
           (bind_streams (snd (execute_script env (Some [])
              ((start_runtime env i s)\<lparr>InitializedOnce := True\<rparr>)))) \<noteq> None"
proof -
  let ?x = "bind_streams (snd (execute_script env (Some [])
              ((start_runtime env i s)\<lparr>InitializedOnce := True\<rparr>)))"
  have "ProgramName ?x = ProgramName (if Py_IsInitialized s then s else SetupPythonPrefix env s)"
    by (simp add: start_runtime_ProgramName)
  then have "program_name_text env ?x
               = program_name_text env (if Py_IsInitialized s then s else SetupPythonPrefix env s)"
    by (rule program_name_text_cong)
  with assms have "vtk_library_located env \<or> program_name_text env ?x \<noteq> None"
    unfolding startup_defined_def by (cases "vtk_library_located env") simp_all
  then show ?thesis
    unfolding SetupVTKPythonPaths_returns .
qed

lemma Initialize_returns:
  assumes "InitializedOnce s \<or> startup_defined env s"
  shows "\<exists>r. Initialize env i s = Some r"
proof (cases "InitializedOnce s")
  case True
  then have "Initialize env i s = Some (False, start_runtime env i s)"
    by (rule Initialize_once)
  then show ?thesis by blast
next
  case False
  with assms have "startup_defined env s" by simp
  from startup_defined_setup [OF this, of i] False show ?thesis
    by (auto simp: Initialize_first)
qed

lemma Initialize_result_once:
  assumes "Initialize env i s = Some r" and "InitializedOnce s"
  shows "snd r = start_runtime env i s" "fst r = False"
  using assms by (auto simp: Initialize_once)

lemma Initialize_result_first:
  assumes "Initialize env i s = Some r" and "\<not> InitializedOnce s"
  shows "fst r = True"
    "InitializedOnce (snd r)" "Py_IsInitialized (snd r)"
    "PythonPaths (snd r) = PythonPaths s"
    "GlobalInterpreters (snd r) = GlobalInterpreters s"
    "PythonVerboseFlag (snd r) = PythonVerboseFlag s"
    "sys_stdout (snd r) = CaptureHelper False"
    "sys_stderr (snd r) = CaptureHelper True"
    "StdOutBuffer (snd r) = []"
    "StdErrBuffer (snd r) = []"
    "ConsoleBuffering (snd r) = False"
    "runtime_calls (trace (snd r)) = runtime_calls (trace s) @ [PyRun_SimpleString_call []]"
proof -
  let ?x = "bind_streams (snd (execute_script env (Some [])
              ((start_runtime env i s)\<lparr>InitializedOnce := True\<rparr>)))"
  from assms obtain s2 where s2: "SetupVTKPythonPaths env ?x = Some s2"
    and r: "r = (True, NotifyInterpreters EnterEvent None
                        (fold vtkPrependPythonPath (PythonPaths s2) s2))"
    by (auto simp: Initialize_first split: option.splits)
  note fr = SetupVTKPythonPaths_frame [OF s2]
  show "fst r = True" by (simp add: r)
  show "InitializedOnce (snd r)" by (simp add: r fr)
  show "Py_IsInitialized (snd r)" by (simp add: r fr)
  show "PythonPaths (snd r) = PythonPaths s" by (simp add: r fr)
  show "GlobalInterpreters (snd r) = GlobalInterpreters s" by (simp add: r fr)
  show "PythonVerboseFlag (snd r) = PythonVerboseFlag s" by (simp add: r fr)
  show "sys_stdout (snd r) = CaptureHelper False" by (simp add: r fr)
  show "sys_stderr (snd r) = CaptureHelper True" by (simp add: r fr)
  show "StdOutBuffer (snd r) = []" by (simp add: r fr)
  show "StdErrBuffer (snd r) = []" by (simp add: r fr)
  show "ConsoleBuffering (snd r) = False" by (simp add: r fr)
  show "runtime_calls (trace (snd r)) = runtime_calls (trace s) @ [PyRun_SimpleString_call []]"
    by (simp add: r fr strip_carriage_returns_def)
qed

lemma Initialize_calls_after_first:
  "InitializedOnce s \<Longrightarrow> Py_IsInitialized s \<Longrightarrow>
   Initialize_calls env is s = Some (replicate (length is) False, s)"
  by (induction "is") (simp_all add: Initialize_once start_runtime_running)

lemma Initialize_first_returns:
  assumes "\<not> InitializedOnce s" and "startup_defined env s"
  shows "\<exists>s2. SetupVTKPythonPaths env
                (bind_streams (snd (execute_script env (Some [])
                   ((start_runtime env i s)\<lparr>InitializedOnce := True\<rparr>)))) = Some s2
            \<and> Initialize env i s
                = Some (True, NotifyInterpreters EnterEvent None
                                (fold vtkPrependPythonPath (PythonPaths s2) s2))"
  using startup_defined_setup [OF assms(2), of i] assms(1)
  by (auto simp: Initialize_first)

lemma SetupPythonPrefix_ProgramName_cong:
  "ProgramName s = ProgramName s' \<Longrightarrow>
   ProgramName (SetupPythonPrefix env s) = ProgramName (SetupPythonPrefix env s')"
  by (simp add: SetupPythonPrefix_def Let_def Py_GetProgramName_def Py_SetProgramName_def)

lemma startup_defined_cong:
  assumes "ProgramName s = ProgramName s'" and "Py_IsInitialized s = Py_IsInitialized s'"
  shows "startup_defined env s = startup_defined env s'"
proof -
  have "ProgramName (if Py_IsInitialized s then s else SetupPythonPrefix env s)
        = ProgramName (if Py_IsInitialized s' then s' else SetupPythonPrefix env s')"
    using assms SetupPythonPrefix_ProgramName_cong [OF assms(1), of env] by simp
  then show ?thesis
    unfolding startup_defined_def using program_name_text_cong by metis
qed

lemma PrependPythonPath_calls_before_start:
  "\<not> Py_IsInitialized s \<Longrightarrow>
   PrependPythonPath_calls env dirs s
     = s\<lparr>PythonPaths := PythonPaths s @ map (convert_slashes env) dirs\<rparr>"
proof (induction dirs arbitrary: s)
  case Nil
  then show ?case by (simp add: PrependPythonPath_calls_def)
next
  case (Cons d dirs)
  have step: "PrependPythonPath env (Some d) s
                = s\<lparr>PythonPaths := PythonPaths s @ [convert_slashes env d]\<rparr>"
    using Cons.prems by (simp add: PrependPythonPath_def Let_def)
  have "PrependPythonPath_calls env (d # dirs) s
          = PrependPythonPath_calls env dirs (PrependPythonPath env (Some d) s)"
    by (simp add: PrependPythonPath_calls_def)
  also have "\<dots> = (PrependPythonPath env (Some d) s)
                     \<lparr>PythonPaths := PythonPaths (PrependPythonPath env (Some d) s)
                                      @ map (convert_slashes env) dirs\<rparr>"
    using Cons.prems by (intro Cons.IH) (simp add: step)
  finally show ?case by (simp add: step)
qed

lemma sys_path_fold_vtkPrependPythonPath:
  "sys_path (fold vtkPrependPythonPath ps s) = rev ps @ sys_path s"
  by (induction ps arbitrary: s) (simp_all add: vtkPrependPythonPath_def Let_def)

text \<open>
  Claim C2. Directories registered with PrependPythonPath before the runtime is started
  are appended to PythonPaths in the order of the calls (with the slashes converted on
  Windows) and leave \<open>sys.path\<close> alone. The first Initialize then inserts them one by
  one at the front of \<open>sys.path\<close>, so that it reads: the registered directories in
  reverse order, then what \<open>sys.path\<close> held when the replay began (the state \<open>s2\<close> that
  SetupVTKPythonPaths left). For \<open>[A, B, C]\<close> and no earlier registration this is
  \<open>C, B, A\<close> followed by the earlier content.
\<close>

theorem pending_paths_replayed_in_order:
  assumes "\<not> Py_IsInitialized s" and "\<not> InitializedOnce s" and "startup_defined env s"
  shows "\<exists>s2 s'.
           PythonPaths (PrependPythonPath_calls env dirs s)
             = PythonPaths s @ map (convert_slashes env) dirs
         \<and> sys_path (PrependPythonPath_calls env dirs s) = sys_path s
         \<and> SetupVTKPythonPaths env
             (bind_streams (snd (execute_script env (Some [])
                ((start_runtime env i (PrependPythonPath_calls env dirs s))
                   \<lparr>InitializedOnce := True\<rparr>)))) = Some s2
         \<and> Initialize env i (PrependPythonPath_calls env dirs s) = Some (True, s')
         \<and> PythonPaths s' = PythonPaths s @ map (convert_slashes env) dirs
         \<and> sys_path s' = rev (map (convert_slashes env) dirs) @ rev (PythonPaths s) @ sys_path s2"
proof -
  let ?s0 = "PrependPythonPath_calls env dirs s"
  have s0: "?s0 = s\<lparr>PythonPaths := PythonPaths s @ map (convert_slashes env) dirs\<rparr>"
    using assms(1) by (rule PrependPythonPath_calls_before_start)
  have fresh: "\<not> InitializedOnce ?s0" using assms(2) by (simp add: s0)
  have "startup_defined env ?s0 = startup_defined env s"
    by (rule startup_defined_cong) (simp_all add: s0)
  with assms(3) have ok: "startup_defined env ?s0" by simp
  from Initialize_first_returns [OF fresh ok, of i] obtain s2 where
    s2: "SetupVTKPythonPaths env
           (bind_streams (snd (execute_script env (Some [])
              ((start_runtime env i ?s0)\<lparr>InitializedOnce := True\<rparr>)))) = Some s2"
    and first: "Initialize env i ?s0
                  = Some (True, NotifyInterpreters EnterEvent None
                                  (fold vtkPrependPythonPath (PythonPaths s2) s2))"
    by blast
  have paths: "PythonPaths s2 = PythonPaths s @ map (convert_slashes env) dirs"
    using SetupVTKPythonPaths_frame(7) [OF s2] by (simp add: s0)
  show ?thesis
    using s2 first paths
    by (simp add: s0 [symmetric] sys_path_fold_vtkPrependPythonPath) (simp add: s0)
qed

theorem pending_paths_replayed_in_order_witness:
  "\<not> Py_IsInitialized process_start \<and> \<not> InitializedOnce process_start
   \<and> startup_defined example_env process_start
   \<and> PythonPaths (PrependPythonPath_calls example_env [''/A'', ''/B'', ''/C''] process_start)
       = [''/A'', ''/B'', ''/C'']
   \<and> (\<exists>s' rest. Initialize example_env 0
                   (PrependPythonPath_calls example_env [''/A'', ''/B'', ''/C''] process_start)
                   = Some (True, s')
               \<and> sys_path s' = [''/C'', ''/B'', ''/A''] @ rest)"
proof -
  have a: "\<not> Py_IsInitialized process_start" and b: "\<not> InitializedOnce process_start"
    by (simp_all add: process_start_def)
  have c: "startup_defined example_env process_start"
    by (simp add: startup_defined_def vtk_library_located_def GetLibraryForSymbol_def
        example_env_def)
  have d: "PythonPaths process_start = []"
    and e: "convert_slashes example_env = (\<lambda>d. d)"
    by (simp_all add: process_start_def convert_slashes_def example_env_def fun_eq_iff)
  from pending_paths_replayed_in_order [OF a b c, of "[''/A'', ''/B'', ''/C'']" 0] a b c
  show ?thesis
    by (auto simp: d e)
qed

section \<open>The landmark walk\<close>

lemma ancestors_Nil [simp]: "ancestors [] = []"
  by (simp add: ancestors_def)

lemma ancestors_step: "cs \<noteq> [] \<Longrightarrow> ancestors cs = cs # ancestors (butlast cs)"
proof -
  assume ne: "cs \<noteq> []"
  then obtain n where n: "length cs = Suc n" by (cases cs) auto
  have same: "map (\<lambda>k. take k cs) (rev [1..<Suc n])
                = map (\<lambda>k. take k (butlast cs)) (rev [1..<Suc n])"
    by (rule map_cong) (auto simp: take_butlast butlast_conv_take n)
  have "ancestors cs = take (Suc n) cs # map (\<lambda>k. take k cs) (rev [1..<Suc n])"
    by (simp add: ancestors_def n)
  moreover have "ancestors (butlast cs) = map (\<lambda>k. take k (butlast cs)) (rev [1..<Suc n])"
    unfolding ancestors_def by (simp add: n)
  moreover have "take (Suc n) cs = cs"
    by (simp add: n)
  ultimately show ?thesis
    using same by simp
qed

lemma site_packages_dir_not_empty [simp]: "site_packages_dir env cs \<noteq> []"
  by (simp add: site_packages_dir_def VTK_PATH_SEPARATOR_def)

lemma sys_path_vtkSafePrependPythonPath:
  "sys_path (vtkSafePrependPythonPath env p s)
     = (if p \<noteq> [] \<and> FileIsDirectory env p then p # sys_path s else sys_path s)"
  by (simp add: vtkSafePrependPythonPath_def vtkPrependPythonPath_def Let_def)

lemma sys_path_landmark_walk:
  "sys_path (landmark_walk env cs s) =
     (case find (has_landmark env) (ancestors cs) of
        None \<Rightarrow> sys_path s
      | Some c \<Rightarrow> if FileIsDirectory env (site_packages_dir env c)
                  then site_packages_dir env c # sys_path s else sys_path s)"
proof (induction env cs s rule: landmark_walk.induct)
  case (1 env cs s)
  show ?case
  proof (cases "cs = []")
    case True
    then show ?thesis by (subst landmark_walk.simps) simp
  next
    case False
    show ?thesis
    proof (cases "has_landmark env cs")
      case True
      with False show ?thesis
        by (subst landmark_walk.simps)
           (simp add: ancestors_step has_landmark_def site_packages_dir_def Let_def
              sys_path_vtkSafePrependPythonPath VTK_PATH_SEPARATOR_def)
    next
      case no: False
      with False have "sys_path (landmark_walk env cs s)
              = sys_path (landmark_walk env (butlast cs)
                  (VTKPY_DEBUG_MESSAGE_VV
                    (''trying VTK landmark file '' @
                       (site_packages_dir env cs @ VTK_PATH_SEPARATOR env @ landmark env) @
                       '' -- failed!'') s))"
        by (subst landmark_walk.simps)
           (simp add: has_landmark_def site_packages_dir_def Let_def)
      also have "\<dots> = (case find (has_landmark env) (ancestors (butlast cs)) of
                          None \<Rightarrow> sys_path s
                        | Some c \<Rightarrow> if FileIsDirectory env (site_packages_dir env c)
                                    then site_packages_dir env c # sys_path s else sys_path s)"
        using False no
        by (subst "1.IH") (simp_all add: has_landmark_def site_packages_dir_def
              split: option.split)
      finally show ?thesis
        using False no by (simp add: ancestors_step)
    qed
  qed
qed

lemma SetupVTKPythonPaths_walk:
  assumes "vtk_library_located env \<or> program_name_text env s \<noteq> None"
  shows "\<exists>tr. SetupVTKPythonPaths env s
               = Some (landmark_walk env (start_components env s) (s\<lparr>trace := tr\<rparr>))"
proof -
  have dbg: "\<And>x t. VTKPY_DEBUG_MESSAGE x t = t\<lparr>trace := trace (VTKPY_DEBUG_MESSAGE x t)\<rparr>"
    by (simp add: VTKPY_DEBUG_MESSAGE_def cout_def)
  show ?thesis
  proof (cases "vtk_library_located env")
    case True
    then have "SetupVTKPythonPaths env s
                 = Some (landmark_walk env (start_components env s)
                          (VTKPY_DEBUG_MESSAGE ''shared VTK build detected.'' s))"
      by (simp add: SetupVTKPythonPaths_def Let_def vtk_library_located_def
          start_components_def)
    then show ?thesis by (subst (asm) dbg) blast
  next
    case False
    with assms obtain p where p: "program_name_text env s = Some p" by auto
    have "\<exists>t. ProgramName t = ProgramName s \<and> (\<exists>tr. t = s\<lparr>trace := tr\<rparr>)
             \<and> SetupVTKPythonPaths env s
                 = Some (landmark_walk env (SplitPath env (CollapseFullPath env p)) t)"
    proof (cases "build_shared_libs env")
      case True
      with False have lib: "GetLibraryForSymbol env ''GetVTKVersion'' = []"
        by (simp add: vtk_library_located_def)
      let ?t = "VTKPY_DEBUG_MESSAGE
                  (''`GetVTKVersion` library couldn't be found. '' @
                   ''Will use `Py_GetProgramName` next.'')
                  (VTKPY_DEBUG_MESSAGE ''shared VTK build detected.'' s)"
      have "?t = s\<lparr>trace := trace ?t\<rparr>"
        by (simp add: VTKPY_DEBUG_MESSAGE_def cout_def)
      moreover have "SetupVTKPythonPaths env s
                 = Some (landmark_walk env (SplitPath env (CollapseFullPath env p)) ?t)"
        using True lib p
        by (cases "build_py3 env")
           (simp_all add: SetupVTKPythonPaths_def Let_def program_name_text_def
              Py_GetProgramName_def)
      ultimately show ?thesis by (metis VTKPY_DEBUG_MESSAGE_frame(9))
    next
      case stat: False
      let ?t = "VTKPY_DEBUG_MESSAGE
                  (''static VTK build detected. '' @
                   ''Using `Py_GetProgramName` to locate python modules.'') s"
      have "?t = s\<lparr>trace := trace ?t\<rparr>"
        by (simp add: VTKPY_DEBUG_MESSAGE_def cout_def)
      moreover have "SetupVTKPythonPaths env s
                 = Some (landmark_walk env (SplitPath env (CollapseFullPath env p)) ?t)"
        using stat p
        by (cases "build_py3 env")
           (simp_all add: SetupVTKPythonPaths_def Let_def program_name_text_def
              Py_GetProgramName_def)
      ultimately show ?thesis by (metis VTKPY_DEBUG_MESSAGE_frame(9))
    qed
    then show ?thesis
      using False p by (auto simp: start_components_def)
  qed
qed

lemma sys_path_SetupVTKPythonPaths:
  assumes "vtk_library_located env \<or> program_name_text env s \<noteq> None"
  shows "\<exists>s'. SetupVTKPythonPaths env s = Some s'
            \<and> sys_path s' =
                (case find (has_landmark env) (ancestors (start_components env s)) of
                   None \<Rightarrow> sys_path s
                 | Some c \<Rightarrow> if FileIsDirectory env (site_packages_dir env c)
                             then site_packages_dir env c # sys_path s else sys_path s)"
proof -
  from SetupVTKPythonPaths_walk [OF assms] obtain tr where
    "SetupVTKPythonPaths env s
       = Some (landmark_walk env (start_components env s) (s\<lparr>trace := tr\<rparr>))" ..
  then show ?thesis
    by (simp add: sys_path_landmark_walk split: option.split)
qed

text \<open>
  Claim C3. SetupVTKPythonPaths walks the ancestors of its starting directory, deepest
  first: \<open>ancestors cs\<close> lists \<open>cs\<close> with no, one, two, ... components removed from
  its end. \<open>find\<close> returns the first of them whose landmark file exists. When there is
  one, its site-packages directory is put in front of \<open>sys.path\<close> and nothing else is
  added; when there is none, \<open>sys.path\<close> is as before. The second hypothesis says that
  the directory holding the landmark that was found is a directory, which
  vtkSafePrependPythonPath tests before it inserts; \<open>sys_path_SetupVTKPythonPaths\<close>
  above is the statement without it.
\<close>

theorem landmark_walk_first_ancestor:
  assumes "vtk_library_located env \<or> program_name_text env s \<noteq> None"
    and "case find (has_landmark env) (ancestors (start_components env s)) of
           None \<Rightarrow> True
         | Some c \<Rightarrow> FileIsDirectory env (site_packages_dir env c)"
  shows "\<exists>s'. SetupVTKPythonPaths env s = Some s'
            \<and> sys_path s' =
                (case find (has_landmark env) (ancestors (start_components env s)) of
                   None \<Rightarrow> sys_path s
                 | Some c \<Rightarrow> site_packages_dir env c # sys_path s)"
  using sys_path_SetupVTKPythonPaths [OF assms(1)] assms(2)
  by (auto split: option.splits)

lemma example_start_components:
  "start_components example_env s = [''/'', ''a'', ''b'', ''c'']"
  by (simp add: start_components_def vtk_library_located_def GetLibraryForSymbol_def
      example_env_def example_SplitPath_def)

lemma example_ancestors:
  "ancestors [''/'', ''a'', ''b'', ''c'']
     = [[''/'', ''a'', ''b'', ''c''], [''/'', ''a'', ''b''], [''/'', ''a''], [''/'']]"
  by (simp add: ancestors_def upt_rec)

lemma example_find_landmark:
  "find (has_landmark example_env) [[''/'', ''a'', ''b'', ''c''], [''/'', ''a'', ''b''], [''/'', ''a''], [''/'']]
     = Some [''/'', ''a'', ''b'']"
  by (simp add: has_landmark_def site_packages_dir_def VTK_PATH_SEPARATOR_def landmark_def
      example_env_def)

theorem landmark_walk_first_ancestor_witness:
  "vtk_library_located example_env
   \<and> find (has_landmark example_env) (ancestors (start_components example_env process_start))
       = Some [''/'', ''a'', ''b'']
   \<and> FileIsDirectory example_env (site_packages_dir example_env [''/'', ''a'', ''b''])
   \<and> (\<exists>s'. SetupVTKPythonPaths example_env process_start = Some s'
           \<and> sys_path s' = [''/a/b/site-packages''])
   \<and> (\<exists>s'. SetupVTKPythonPaths (example_env\<lparr>FileExists := (\<lambda>p. False)\<rparr>) process_start = Some s'
           \<and> sys_path s' = [])"
proof -
  have lib: "vtk_library_located example_env"
    by (simp add: vtk_library_located_def GetLibraryForSymbol_def example_env_def)
  have found: "find (has_landmark example_env)
                 (ancestors (start_components example_env process_start))
               = Some [''/'', ''a'', ''b'']"
    by (simp only: example_start_components example_ancestors example_find_landmark)
  have dir: "FileIsDirectory example_env (site_packages_dir example_env [''/'', ''a'', ''b''])"
    by (simp add: site_packages_dir_def VTK_PATH_SEPARATOR_def example_env_def)
  have sp: "site_packages_dir example_env [''/'', ''a'', ''b''] = ''/a/b/site-packages''"
    by (simp add: site_packages_dir_def VTK_PATH_SEPARATOR_def example_env_def)
  have lib': "vtk_library_located (example_env\<lparr>FileExists := (\<lambda>p. False)\<rparr>)"
    by (simp add: vtk_library_located_def GetLibraryForSymbol_def example_env_def)
  have none: "find (has_landmark (example_env\<lparr>FileExists := (\<lambda>p. False)\<rparr>)) cs = None" for cs
    by (induction cs) (simp_all add: has_landmark_def)
  have empty: "sys_path process_start = []"
    by (simp add: process_start_def)
  from landmark_walk_first_ancestor [of example_env process_start]
    landmark_walk_first_ancestor [of "example_env\<lparr>FileExists := (\<lambda>p. False)\<rparr>" process_start]
  show ?thesis
    using lib lib' dir by (simp add: found none sp empty)
qed

section \<open>RunSimpleString: buffering and carriage returns\<close>

lemma RunSimpleString_unfold:
  "Initialize env 1 s = Some r \<Longrightarrow>
   RunSimpleString env script s = Some (execute_script env script (snd r))"
  by (subst RunSimpleString.simps) simp

lemma stream_of_frame [simp]:
  "stream_of (s\<lparr>StdOutBuffer := x\<rparr>) = stream_of s"
  "stream_of (s\<lparr>StdErrBuffer := x\<rparr>) = stream_of s"
  "stream_of (s\<lparr>trace := y\<rparr>) = stream_of s"
  "stream_of (s\<lparr>ConsoleBuffering := z\<rparr>) = stream_of s"
  by (simp_all add: stream_of_def fun_eq_iff split: py_fd.split)

lemma stream_write_buffering:
  assumes "ConsoleBuffering s"
  shows "stream_write w s =
           (case stream_of s (fst w) of
              DefaultStream \<Rightarrow> s\<lparr>trace := trace s @ [ConsoleWrite (fst w) (snd w)]\<rparr>
            | CaptureHelper dump_to_error \<Rightarrow>
                if dump_to_error then s\<lparr>StdErrBuffer := StdErrBuffer s @ snd w\<rparr>
                else s\<lparr>StdOutBuffer := StdOutBuffer s @ snd w\<rparr>)"
  using assms
  by (simp add: stream_write_def stream_of_def WriteStdOut_def WriteStdErr_def
      split: py_stream.splits)

lemma fold_stream_write_buffering:
  assumes "ConsoleBuffering s"
  shows "fold stream_write ws s
           = s\<lparr>StdErrBuffer := StdErrBuffer s @ captured_by True s ws,
               StdOutBuffer := StdOutBuffer s @ captured_by False s ws,
               trace := trace s @ console_writes s ws\<rparr>"
  using assms
proof (induction ws arbitrary: s)
  case Nil
  then show ?case by (simp add: captured_by_def console_writes_def)
next
  case (Cons w ws)
  let ?t = "stream_write w s"
  have buf: "ConsoleBuffering ?t" using Cons.prems by simp
  have so: "stream_of ?t = stream_of s"
    by (simp add: stream_of_def fun_eq_iff split: py_fd.split)
  have cap: "captured_by b ?t ws = captured_by b s ws" for b
    by (simp add: captured_by_def so)
  have con: "console_writes ?t ws = console_writes s ws"
    by (simp add: console_writes_def so)
  have "fold stream_write (w # ws) s = fold stream_write ws ?t" by simp
  also have "\<dots> = ?t\<lparr>StdErrBuffer := StdErrBuffer ?t @ captured_by True s ws,
                       StdOutBuffer := StdOutBuffer ?t @ captured_by False s ws,
                       trace := trace ?t @ console_writes s ws\<rparr>"
    using Cons.IH [OF buf] by (simp only: cap con)
  also have "\<dots> = s\<lparr>StdErrBuffer := StdErrBuffer s @ captured_by True s (w # ws),
                       StdOutBuffer := StdOutBuffer s @ captured_by False s (w # ws),
                       trace := trace s @ console_writes s (w # ws)\<rparr>"
  proof (cases "stream_of s (fst w)")
    case DefaultStream
    then show ?thesis
      by (simp add: stream_write_buffering [OF Cons.prems] captured_by_def console_writes_def)
  next
    case (CaptureHelper b)
    then show ?thesis
      by (cases b)
         (simp_all add: stream_write_buffering [OF Cons.prems] captured_by_def
            console_writes_def)
  qed
  finally show ?case .
qed

lemma execute_script_result:
  "fst (execute_script env script s)
     = snd (PyRun_SimpleString env (s\<lparr>ConsoleBuffering := True\<rparr>)
              (strip_carriage_returns (case script of None \<Rightarrow> [] | Some t \<Rightarrow> t)))"
  by (simp add: execute_script_def Let_def run_PyRun_SimpleString_def)

lemma execute_script_trace:
  "trace (snd (execute_script env script s))
     = trace s
       @ [PyRun_SimpleString_call
            (strip_carriage_returns (case script of None \<Rightarrow> [] | Some t \<Rightarrow> t))]
       @ console_writes s
           (fst (PyRun_SimpleString env (s\<lparr>ConsoleBuffering := True\<rparr>)
              (strip_carriage_returns (case script of None \<Rightarrow> [] | Some t \<Rightarrow> t))))
       @ flush_events DisplayErrorText ErrorEvent
           (StdErrBuffer s @ captured_by True s
              (fst (PyRun_SimpleString env (s\<lparr>ConsoleBuffering := True\<rparr>)
                 (strip_carriage_returns (case script of None \<Rightarrow> [] | Some t \<Rightarrow> t)))))
           (GlobalInterpreters s)
       @ flush_events DisplayText SetOutputEvent
           (StdOutBuffer s @ captured_by False s
              (fst (PyRun_SimpleString env (s\<lparr>ConsoleBuffering := True\<rparr>)
                 (strip_carriage_returns (case script of None \<Rightarrow> [] | Some t \<Rightarrow> t)))))
           (GlobalInterpreters s)"
proof -
  let ?b = "strip_carriage_returns (case script of None \<Rightarrow> [] | Some t \<Rightarrow> t)"
  let ?s1 = "s\<lparr>ConsoleBuffering := True\<rparr>"
  let ?ws = "fst (PyRun_SimpleString env ?s1 ?b)"
  have cap: "captured_by b (?s1\<lparr>trace := x\<rparr>) ?ws = captured_by b s ?ws" for b x
    by (simp add: captured_by_def)
  have con: "console_writes (?s1\<lparr>trace := x\<rparr>) ?ws = console_writes s ?ws" for x
    by (simp add: console_writes_def)
  have run: "snd (run_PyRun_SimpleString env ?b ?s1)
               = ?s1\<lparr>StdErrBuffer := StdErrBuffer s @ captured_by True s ?ws,
                     StdOutBuffer := StdOutBuffer s @ captured_by False s ?ws,
                     trace := trace s @ [PyRun_SimpleString_call ?b] @ console_writes s ?ws\<rparr>"
    unfolding run_PyRun_SimpleString_def Let_def
    by (subst fold_stream_write_buffering) (simp_all add: cap con)
  show ?thesis
    unfolding execute_script_def Let_def run
    by (simp add: flush_events_def NotifyInterpreters_def vtkOutputWindowDisplayText_def
        vtkOutputWindowDisplayErrorText_def)
qed

lemma all_captured:
  assumes "sys_stdout s = CaptureHelper False" and "sys_stderr s = CaptureHelper True"
  shows "console_writes s ws = []" "captured_by True s ws = written_to PyStderr ws"
    "captured_by False s ws = written_to PyStdout ws"
proof -
  have so: "stream_of s fd = CaptureHelper (fd = PyStderr)" for fd
    using assms by (cases fd) (simp_all add: stream_of_def)
  have eq: "fd \<noteq> PyStderr \<longleftrightarrow> fd = PyStdout" for fd
    by (cases fd) simp_all
  show "console_writes s ws = []"
    by (simp add: console_writes_def so)
  show "captured_by True s ws = written_to PyStderr ws"
    by (simp add: captured_by_def written_to_def so)
  show "captured_by False s ws = written_to PyStdout ws"
    by (simp add: captured_by_def written_to_def so eq)
qed

text \<open>
  Claim C4. A call of RunSimpleString first makes sure the first-time setup has run
  (leaving the state \<open>snd r\<close>), then runs the script. Between the call of
  \<open>PyRun_SimpleString\<close> and the end of RunSimpleString nothing is displayed and no
  observer is notified for a single write: the trace holds only the writes that went to
  the console because their stream was not bound to a helper, then, when the error
  accumulator is not empty, one display of its whole content and one notification of
  ErrorEvent carrying it, then the same for the output accumulator with SetOutputEvent.
  Afterwards both accumulators are empty and ConsoleBuffering is off. In a process where
  the setup has not run yet, or where it has and the runtime is running with the helpers
  bound and the accumulators empty (the state every such call leaves), no write goes to
  the console and the accumulators hold exactly what the script wrote to each stream.
\<close>

theorem RunSimpleString_buffers_output:
  assumes "InitializedOnce s \<or> startup_defined env s"
  shows "\<exists>r s' buffer ws.
           Initialize env 1 s = Some r
         \<and> buffer = strip_carriage_returns (case script of None \<Rightarrow> [] | Some t \<Rightarrow> t)
         \<and> ws = fst (PyRun_SimpleString env ((snd r)\<lparr>ConsoleBuffering := True\<rparr>) buffer)
         \<and> RunSimpleString env script s
             = Some (snd (PyRun_SimpleString env ((snd r)\<lparr>ConsoleBuffering := True\<rparr>) buffer), s')
         \<and> ConsoleBuffering s' = False \<and> StdOutBuffer s' = [] \<and> StdErrBuffer s' = []
         \<and> trace s'
             = trace (snd r) @ [PyRun_SimpleString_call buffer]
               @ console_writes (snd r) ws
               @ flush_events DisplayErrorText ErrorEvent
                   (StdErrBuffer (snd r) @ captured_by True (snd r) ws) (GlobalInterpreters s)
               @ flush_events DisplayText SetOutputEvent
                   (StdOutBuffer (snd r) @ captured_by False (snd r) ws) (GlobalInterpreters s)
         \<and> ((InitializedOnce s \<longrightarrow>
                Py_IsInitialized s \<and> sys_stdout s = CaptureHelper False
                \<and> sys_stderr s = CaptureHelper True
                \<and> StdOutBuffer s = [] \<and> StdErrBuffer s = [])
             \<longrightarrow> console_writes (snd r) ws = []
                 \<and> StdErrBuffer (snd r) @ captured_by True (snd r) ws = written_to PyStderr ws
                 \<and> StdOutBuffer (snd r) @ captured_by False (snd r) ws = written_to PyStdout ws)"
proof -
  from Initialize_returns [OF assms(1), of 1] obtain r where r: "Initialize env 1 s = Some r"
    by blast
  have obs: "GlobalInterpreters (snd r) = GlobalInterpreters s"
  proof (cases "InitializedOnce s")
    case True
    from Initialize_result_once(1) [OF r True] show ?thesis by simp
  next
    case False
    from Initialize_result_first(5) [OF r False] show ?thesis .
  qed
  have bound: "sys_stdout (snd r) = CaptureHelper False \<and> sys_stderr (snd r) = CaptureHelper True
               \<and> StdOutBuffer (snd r) = [] \<and> StdErrBuffer (snd r) = []"
    if steady: "InitializedOnce s \<longrightarrow>
                  Py_IsInitialized s \<and> sys_stdout s = CaptureHelper False
                  \<and> sys_stderr s = CaptureHelper True
                  \<and> StdOutBuffer s = [] \<and> StdErrBuffer s = []"
  proof (cases "InitializedOnce s")
    case True
    with steady have st: "Py_IsInitialized s" "sys_stdout s = CaptureHelper False"
      "sys_stderr s = CaptureHelper True" "StdOutBuffer s = []" "StdErrBuffer s = []"
      by simp_all
    have "snd r = s"
      using Initialize_result_once(1) [OF r True] st(1) by (simp add: start_runtime_running)
    with st show ?thesis by simp
  next
    case False
    from Initialize_result_first [OF r False] show ?thesis by simp
  qed
  have run: "RunSimpleString env script s = Some (execute_script env script (snd r))"
    using r by (rule RunSimpleString_unfold)
  let ?e = "execute_script env script (snd r)"
  have "RunSimpleString env script s = Some (fst ?e, snd ?e)"
    by (simp add: run)
  moreover have "ConsoleBuffering (snd ?e) = False" "StdOutBuffer (snd ?e) = []"
    "StdErrBuffer (snd ?e) = []"
    by simp_all
  moreover note execute_script_result [of env script "snd r"]
    execute_script_trace [of env script "snd r"] r
  ultimately show ?thesis
    using bound all_captured
    by (intro exI [of _ r] exI [of _ "snd ?e"]) (simp add: obs)
qed

theorem RunSimpleString_buffers_output_witness:
  "(InitializedOnce (vtkPythonInterpreter_ctor 7 process_start)
      \<or> startup_defined example_env (vtkPythonInterpreter_ctor 7 process_start))
   \<and> \<not> InitializedOnce (vtkPythonInterpreter_ctor 7 process_start)
   \<and> (\<exists>r s'. Initialize example_env 1 (vtkPythonInterpreter_ctor 7 process_start) = Some r
            \<and> RunSimpleString example_env (Some ''print(1)'')
                 (vtkPythonInterpreter_ctor 7 process_start) = Some (0, s')
            \<and> trace s' = trace (snd r)
                 @ [PyRun_SimpleString_call ''print(1)'',
                    DisplayText [CHR ''1'', CHR 0x0A],
                    InvokeEvent 7 SetOutputEvent (Some [CHR ''1'', CHR 0x0A])])"
proof -
  let ?s = "vtkPythonInterpreter_ctor 7 process_start"
  have a: "\<not> InitializedOnce ?s"
    by (simp add: vtkPythonInterpreter_ctor_def process_start_def)
  have b: "startup_defined example_env ?s"
    by (simp add: startup_defined_def vtk_library_located_def GetLibraryForSymbol_def
        example_env_def)
  have run: "PyRun_SimpleString example_env x ''print(1)''
               = ([(PyStdout, ''1''), (PyStdout, endl)], 0)" for x
    by (simp add: example_env_def)
  have obs: "GlobalInterpreters ?s = [Some 7]"
    by (simp add: vtkPythonInterpreter_ctor_def process_start_def)
  from RunSimpleString_buffers_output [of ?s example_env "Some ''print(1)''"] a b
  show ?thesis
    by (auto simp: run obs strip_carriage_returns_def written_to_def flush_events_def endl_def)
qed

text \<open>
  Claim C9. The text passed to \<open>PyRun_SimpleString\<close> by a call of RunSimpleString is
  the script without its carriage returns, and that is the one call into the runtime
  the script execution adds. Running a script and running it with the carriage returns
  already removed give the same result and the same state.
\<close>

theorem RunSimpleString_strips_carriage_returns:
  assumes "InitializedOnce s \<or> startup_defined env s"
  shows "\<exists>r rc s'.
           Initialize env 1 s = Some r
         \<and> RunSimpleString env (Some script) s = Some (rc, s')
         \<and> runtime_calls (trace s')
             = runtime_calls (trace (snd r))
               @ [PyRun_SimpleString_call (filter (\<lambda>c. c \<noteq> CHR 0x0D) script)]
         \<and> RunSimpleString env (Some script) s
             = RunSimpleString env (Some (filter (\<lambda>c. c \<noteq> CHR 0x0D) script)) s"
proof -
  from Initialize_returns [OF assms, of 1] obtain r where r: "Initialize env 1 s = Some r"
    by blast
  let ?e = "execute_script env (Some script) (snd r)"
  have same: "execute_script env (Some (filter (\<lambda>c. c \<noteq> CHR 0x0D) script)) (snd r) = ?e"
    by (simp add: execute_script_def strip_carriage_returns_def)
  have "RunSimpleString env (Some script) s = Some (fst ?e, snd ?e)"
    using RunSimpleString_unfold [OF r] by simp
  moreover have "runtime_calls (trace (snd ?e))
             = runtime_calls (trace (snd r))
               @ [PyRun_SimpleString_call (filter (\<lambda>c. c \<noteq> CHR 0x0D) script)]"
    by (simp add: strip_carriage_returns_def)
  moreover have "RunSimpleString env (Some script) s
             = RunSimpleString env (Some (filter (\<lambda>c. c \<noteq> CHR 0x0D) script)) s"
    using RunSimpleString_unfold [OF r] by (simp add: same)
  ultimately show ?thesis
    using r by blast
qed

theorem RunSimpleString_strips_carriage_returns_witness:
  "(InitializedOnce process_start \<or> startup_defined example_env process_start)
   \<and> (\<exists>r rc s'.
         Initialize example_env 1 process_start = Some r
       \<and> RunSimpleString example_env
            (Some [CHR ''a'', CHR 0x0D, CHR 0x0A, CHR ''b'', CHR 0x0D, CHR 0x0A]) process_start
           = Some (rc, s')
       \<and> runtime_calls (trace s')
           = runtime_calls (trace (snd r))
             @ [PyRun_SimpleString_call [CHR ''a'', CHR 0x0A, CHR ''b'', CHR 0x0A]])"
proof -
  have b: "startup_defined example_env process_start"
    by (simp add: startup_defined_def vtk_library_located_def GetLibraryForSymbol_def
        example_env_def)
  from RunSimpleString_strips_carriage_returns
         [of process_start example_env "[CHR ''a'', CHR 0x0D, CHR 0x0A, CHR ''b'', CHR 0x0D, CHR 0x0A]"]
       b
  show ?thesis
    by auto
qed

section \<open>PyMain: the arguments handed to the runtime\<close>

lemma Py_Main_arguments_append [simp]:
  "Py_Main_arguments (xs @ ys) = Py_Main_arguments xs @ Py_Main_arguments ys"
  by (induction xs rule: Py_Main_arguments.induct) simp_all

lemma Py_Main_arguments_runtime_calls [simp]:
  "Py_Main_arguments (runtime_calls es) = Py_Main_arguments es"
  by (induction es rule: Py_Main_arguments.induct) simp_all

lemma Py_Main_arguments_unchanged:
  "runtime_calls (trace s') = runtime_calls (trace s) \<Longrightarrow>
   Py_Main_arguments (trace s') = Py_Main_arguments (trace s)"
proof -
  assume "runtime_calls (trace s') = runtime_calls (trace s)"
  from arg_cong [OF this, of Py_Main_arguments] show ?thesis by simp
qed

lemma Py_Main_arguments_run_Py_Main:
  "Py_Main_arguments (trace (snd (run_Py_Main env args s)))
     = Py_Main_arguments (trace s) @ [args]"
proof -
  let ?s1 = "s\<lparr>trace := trace s @ [Py_Main_call args]\<rparr>"
  have "Py_Main_arguments (trace (fold stream_write (fst (Py_Main env s args)) ?s1))
          = Py_Main_arguments (trace ?s1)"
    by (rule Py_Main_arguments_unchanged) simp
  then show ?thesis
    by (simp add: run_Py_Main_def)
qed

lemma Initialize_Py_Main_arguments:
  assumes "Initialize env i s = Some r"
  shows "Py_Main_arguments (trace (snd r)) = Py_Main_arguments (trace s)"
proof (cases "InitializedOnce s")
  case True
  from Initialize_result_once(1) [OF assms True]
  have "runtime_calls (trace (snd r)) = runtime_calls (trace s)" by simp
  then show ?thesis by (rule Py_Main_arguments_unchanged)
next
  case False
  from arg_cong [OF Initialize_result_first(12) [OF assms False], of Py_Main_arguments]
  show ?thesis by simp
qed

lemma Initialize_PythonVerboseFlag:
  assumes "Initialize env i s = Some r"
  shows "PythonVerboseFlag (snd r) = PythonVerboseFlag s"
proof (cases "InitializedOnce s")
  case True
  from Initialize_result_once(1) [OF assms True] show ?thesis by simp
next
  case False
  from Initialize_result_first(6) [OF assms False] show ?thesis .
qed

lemma decode_arguments_calls [simp]:
  "runtime_calls (trace (snd (decode_arguments env argv i acc s))) = runtime_calls (trace s)"
  by (induction argv arbitrary: i acc s) (simp_all add: Let_def split: option.split)

lemma decode_arguments_flag [simp]:
  "PythonVerboseFlag (snd (decode_arguments env argv i acc s)) = PythonVerboseFlag s"
  by (induction argv arbitrary: i acc s) (simp_all add: Let_def split: option.split)

lemma collect_arguments_calls [simp]:
  "runtime_calls (trace (snd (collect_arguments env argv acc s))) = runtime_calls (trace s)"
  by (induction argv arbitrary: acc s) (simp_all add: Let_def)

lemma collect_arguments_flag [simp]:
  "PythonVerboseFlag (snd (collect_arguments env argv acc s)) = PythonVerboseFlag s"
  by (induction argv arbitrary: acc s) (simp_all add: Let_def)

lemma collect_arguments_result:
  "fst (collect_arguments env argv acc s)
     = acc @ filter (\<lambda>a. a \<noteq> Some ''--enable-bt'') argv"
  by (induction argv arbitrary: acc s) (simp_all add: Let_def)

lemma decode_arguments_all_decoded:
  assumes "\<forall>a\<in>set argv. a \<noteq> Some ''--enable-bt'' \<longrightarrow> vtk_Py_DecodeLocale env a \<noteq> None"
  shows "fst (decode_arguments env argv i acc s)
           = Some (acc @ map (\<lambda>a. the (vtk_Py_DecodeLocale env a))
                          (filter (\<lambda>a. a \<noteq> Some ''--enable-bt'') argv))"
  using assms
  by (induction argv arbitrary: i acc s) (auto simp: Let_def split: option.split)

lemma decode_arguments_failure:
  assumes "\<exists>a\<in>set argv. a \<noteq> Some ''--enable-bt'' \<and> vtk_Py_DecodeLocale env a = None"
  shows "fst (decode_arguments env argv i acc s) = None
       \<and> last (trace (snd (decode_arguments env argv i acc s)))
           = Stderr (''Fatal vtkpython error: '' @
                     ''unable to decode the command line argument #'' @
                     show_nat (i + Suc (length (takeWhile
                        (\<lambda>a. a = Some ''--enable-bt'' \<or> vtk_Py_DecodeLocale env a \<noteq> None) argv)))
                     @ endl)"
  using assms
proof (induction env argv i acc s rule: decode_arguments.induct)
  case (1 env i argvWide s)
  then show ?case by simp
next
  case (2 env a rest i argvWide s)
  show ?case
  proof (cases "a = Some ''--enable-bt''")
    case True
    with "2.prems" have "\<exists>a\<in>set rest. a \<noteq> Some ''--enable-bt'' \<and> vtk_Py_DecodeLocale env a = None"
      by auto
    from "2.IH"(1) [OF True this] True show ?thesis by simp
  next
    case False
    show ?thesis
    proof (cases "vtk_Py_DecodeLocale env a")
      case None
      with False show ?thesis by (simp add: Let_def)
    next
      case (Some w)
      with "2.prems" False
      have "\<exists>a\<in>set rest. a \<noteq> Some ''--enable-bt'' \<and> vtk_Py_DecodeLocale env a = None"
        by auto
      from "2.IH"(2) [OF False refl Some this] False Some show ?thesis
        by (simp add: Let_def)
    qed
  qed
qed

lemma scan_verbose_flags_snoc:
  "scan_verbose_flags (argv @ [a]) flag =
     (if a = Some ''-vv'' then 2
      else if a = Some ''-v'' then scan_verbose_flags argv flag + 1
      else scan_verbose_flags argv flag)"
  by (induction argv flag rule: scan_verbose_flags.induct) (auto simp: Let_def)

lemma scan_verbose_flags_closed:
  "scan_verbose_flags argv 0 =
     (if Some ''-vv'' \<in> set argv then 2 else 0)
     + int (count_list (takeWhile (\<lambda>a. a \<noteq> Some ''-vv'') (rev argv)) (Some ''-v''))"
  by (induction argv rule: rev_induct) (auto simp: scan_verbose_flags_snoc)

lemma PyMain_startup:
  assumes "InitializedOnce s \<or> startup_defined env s"
  shows "\<exists>r. Initialize env 1 (s\<lparr>PythonVerboseFlag := v\<rparr>) = Some r"
proof -
  have "startup_defined env (s\<lparr>PythonVerboseFlag := v\<rparr>) = startup_defined env s"
    by (rule startup_defined_cong) simp_all
  with assms have "InitializedOnce (s\<lparr>PythonVerboseFlag := v\<rparr>)
                   \<or> startup_defined env (s\<lparr>PythonVerboseFlag := v\<rparr>)"
    by simp
  then show ?thesis by (rule Initialize_returns)
qed

lemma PyMain_hands_on:
  assumes "InitializedOnce s \<or> startup_defined env s"
    and "build_py3 env \<Longrightarrow>
           \<forall>a\<in>set argv. a \<noteq> Some ''--enable-bt'' \<longrightarrow> vtk_Py_DecodeLocale env a \<noteq> None"
  shows "\<exists>rc s'. PyMain env argv s = Some (rc, s')
           \<and> Py_Main_arguments (trace s')
               = Py_Main_arguments (trace s)
                 @ [if build_py3 env
                    then map (vtk_Py_DecodeLocale env)
                           (filter (\<lambda>a. a \<noteq> Some ''--enable-bt'') argv)
                    else filter (\<lambda>a. a \<noteq> Some ''--enable-bt'') argv]
           \<and> PythonVerboseFlag s' = scan_verbose_flags argv 0"
proof -
  let ?s0 = "s\<lparr>PythonVerboseFlag := scan_verbose_flags argv 0\<rparr>"
  let ?kept = "filter (\<lambda>a. a \<noteq> Some ''--enable-bt'') argv"
  from PyMain_startup [OF assms(1)] obtain r where r: "Initialize env 1 ?s0 = Some r"
    by blast
  have args0: "Py_Main_arguments (trace (snd r)) = Py_Main_arguments (trace s)"
    using Initialize_Py_Main_arguments [OF r] by simp
  have flag0: "PythonVerboseFlag (snd r) = scan_verbose_flags argv 0"
    using Initialize_PythonVerboseFlag [OF r] by simp
  show ?thesis
  proof (cases "build_py3 env")
    case True
    let ?d = "decode_arguments env argv 0 [] (snd r)"
    have dec: "\<forall>a\<in>set argv. a \<noteq> Some ''--enable-bt'' \<longrightarrow> vtk_Py_DecodeLocale env a \<noteq> None"
      using assms(2) True by simp
    have wide: "fst ?d = Some (map (\<lambda>a. the (vtk_Py_DecodeLocale env a)) ?kept)"
      using decode_arguments_all_decoded [OF dec, of 0 "[]" "snd r"] by simp
    have same: "map (Some \<circ> (\<lambda>a. the (vtk_Py_DecodeLocale env a))) ?kept
                  = map (vtk_Py_DecodeLocale env) ?kept"
      using dec by auto
    let ?m = "run_Py_Main env (map (vtk_Py_DecodeLocale env) ?kept) (snd ?d)"
    have main: "PyMain env argv s = Some ?m"
      using True r wide by (simp add: PyMain_def same)
    have "Py_Main_arguments (trace (snd ?d)) = Py_Main_arguments (trace (snd r))"
      by (rule Py_Main_arguments_unchanged) simp
    then have "Py_Main_arguments (trace (snd ?m))
                 = Py_Main_arguments (trace s) @ [map (vtk_Py_DecodeLocale env) ?kept]"
      by (simp add: Py_Main_arguments_run_Py_Main args0)
    moreover have "PythonVerboseFlag (snd ?m) = scan_verbose_flags argv 0"
      by (simp add: flag0)
    ultimately show ?thesis
      using True main by (intro exI [of _ "fst ?m"] exI [of _ "snd ?m"]) simp
  next
    case False
    let ?c = "collect_arguments env argv [] (snd r)"
    let ?m = "run_Py_Main env (fst ?c) (snd ?c)"
    have main: "PyMain env argv s = Some ?m"
      using False r by (simp add: PyMain_def)
    have kept: "fst ?c = ?kept"
      by (simp add: collect_arguments_result)
    have "Py_Main_arguments (trace (snd ?c)) = Py_Main_arguments (trace (snd r))"
      by (rule Py_Main_arguments_unchanged) simp
    then have "Py_Main_arguments (trace (snd ?m)) = Py_Main_arguments (trace s) @ [?kept]"
      by (simp add: Py_Main_arguments_run_Py_Main args0 kept)
    moreover have "PythonVerboseFlag (snd ?m) = scan_verbose_flags argv 0"
      by (simp add: flag0)
    ultimately show ?thesis
      using False main by (intro exI [of _ "fst ?m"] exI [of _ "snd ?m"]) simp
  qed
qed

lemma example_startup: "startup_defined example_env process_start"
  by (simp add: startup_defined_def vtk_library_located_def GetLibraryForSymbol_def
      example_env_def)

text \<open>
  Claim C6, as stated, fails: \<open>-v\<close> and \<open>-vv\<close> are not taken out of the arguments.
  With the arguments \<open>vtkpython -v -v --enable-bt -vv x.py\<close> the vector handed to
  \<open>Py_Main\<close> still holds both \<open>-v\<close> and the \<open>-vv\<close>; only \<open>--enable-bt\<close> is gone.
\<close>

theorem PyMain_passes_verbose_flags_counterexample:
  "PyMain_handed_arguments example_env
     [Some ''vtkpython'', Some ''-v'', Some ''-v'', Some ''--enable-bt'', Some ''-vv'', Some ''x.py'']
     process_start
     = Some [[Some ''vtkpython'', Some ''-v'', Some ''-v'', Some ''-vv'', Some ''x.py'']]"
proof -
  have ok: "InitializedOnce process_start \<or> startup_defined example_env process_start"
    using example_startup by simp
  have dec: "\<forall>a\<in>set [Some ''vtkpython'', Some ''-v'', Some ''-v'', Some ''--enable-bt'',
                       Some ''-vv'', Some ''x.py''].
               a \<noteq> Some ''--enable-bt'' \<longrightarrow> vtk_Py_DecodeLocale example_env a \<noteq> None"
    by (simp add: vtk_Py_DecodeLocale_def example_env_def)
  have py3: "build_py3 example_env" and tr: "trace process_start = []"
    by (simp_all add: example_env_def process_start_def)
  have d: "vtk_Py_DecodeLocale example_env (Some ''vtkpython'') = Some ''vtkpython''"
    "vtk_Py_DecodeLocale example_env (Some ''-v'') = Some ''-v''"
    "vtk_Py_DecodeLocale example_env (Some ''-vv'') = Some ''-vv''"
    "vtk_Py_DecodeLocale example_env (Some ''x.py'') = Some ''x.py''"
    by (simp_all add: vtk_Py_DecodeLocale_def example_env_def)
  from PyMain_hands_on [OF ok dec] show ?thesis
    by (auto simp: PyMain_handed_arguments_def py3 tr d)
qed

text \<open>
  Claim C6, amended. When every argument other than \<open>--enable-bt\<close> can be decoded
  (a condition of the Python 3 build only), PyMain calls \<open>Py_Main\<close> once, with the
  arguments of \<open>argv\<close> in their order without the occurrences of \<open>--enable-bt\<close>,
  decoded in the Python 3 build and as they are in the Python 2 build. The verbosity
  flags are recognised but stay among the arguments: PythonVerboseFlag becomes 2 if
  \<open>-vv\<close> occurs and 0 otherwise, plus the number of \<open>-v\<close> after the last \<open>-vv\<close>.
\<close>

theorem PyMain_strips_only_enable_bt:
  assumes "InitializedOnce s \<or> startup_defined env s"
    and "build_py3 env \<Longrightarrow>
           \<forall>a\<in>set argv. a \<noteq> Some ''--enable-bt'' \<longrightarrow> vtk_Py_DecodeLocale env a \<noteq> None"
  shows "\<exists>rc s'. PyMain env argv s = Some (rc, s')
           \<and> Py_Main_arguments (trace s')
               = Py_Main_arguments (trace s)
                 @ [if build_py3 env
                    then map (vtk_Py_DecodeLocale env)
                           (filter (\<lambda>a. a \<noteq> Some ''--enable-bt'') argv)
                    else filter (\<lambda>a. a \<noteq> Some ''--enable-bt'') argv]
           \<and> PythonVerboseFlag s'
               = (if Some ''-vv'' \<in> set argv then 2 else 0)
                 + int (count_list (takeWhile (\<lambda>a. a \<noteq> Some ''-vv'') (rev argv)) (Some ''-v''))"
  using PyMain_hands_on [OF assms] by (simp only: scan_verbose_flags_closed)

theorem PyMain_strips_only_enable_bt_witness:
  "(InitializedOnce process_start \<or> startup_defined example_env process_start)
   \<and> list_all (\<lambda>a. vtk_Py_DecodeLocale example_env a \<noteq> None)
        [Some ''vtkpython'', Some ''-vv'', Some ''-v'', Some ''x.py'']
   \<and> PyMain_handed_arguments example_env
        [Some ''vtkpython'', Some ''-vv'', Some ''--enable-bt'', Some ''-v'', Some ''x.py'']
        process_start
       = Some [[Some ''vtkpython'', Some ''-vv'', Some ''-v'', Some ''x.py'']]
   \<and> PyMain_verbosity example_env
        [Some ''vtkpython'', Some ''-vv'', Some ''--enable-bt'', Some ''-v'', Some ''x.py'']
        process_start
       = Some 3"
proof -
  have ok: "InitializedOnce process_start \<or> startup_defined example_env process_start"
    using example_startup by simp
  have dec: "\<forall>a\<in>set [Some ''vtkpython'', Some ''-vv'', Some ''--enable-bt'', Some ''-v'',
                       Some ''x.py''].
               a \<noteq> Some ''--enable-bt'' \<longrightarrow> vtk_Py_DecodeLocale example_env a \<noteq> None"
    by (simp add: vtk_Py_DecodeLocale_def example_env_def)
  have py3: "build_py3 example_env" and tr: "trace process_start = []"
    by (simp_all add: example_env_def process_start_def)
  have d: "vtk_Py_DecodeLocale example_env (Some ''vtkpython'') = Some ''vtkpython''"
    "vtk_Py_DecodeLocale example_env (Some ''-v'') = Some ''-v''"
    "vtk_Py_DecodeLocale example_env (Some ''-vv'') = Some ''-vv''"
    "vtk_Py_DecodeLocale example_env (Some ''x.py'') = Some ''x.py''"
    by (simp_all add: vtk_Py_DecodeLocale_def example_env_def)
  from PyMain_strips_only_enable_bt [OF ok dec] ok show ?thesis
    by (auto simp: PyMain_handed_arguments_def PyMain_verbosity_def py3 tr d)
qed

text \<open>
  Claim C7. In the Python 3 build, when some argument other than \<open>--enable-bt\<close> cannot
  be decoded, PyMain returns 1, the last thing it does is print the diagnostic with the
  number of the first such argument on \<open>stderr\<close>, and \<open>Py_Main\<close> is not called: the
  calls of \<open>Py_Main\<close> in the trace are those that were there before.
\<close>

theorem PyMain_decode_failure:
  assumes "build_py3 env"
    and "\<exists>a\<in>set argv. a \<noteq> Some ''--enable-bt'' \<and> vtk_Py_DecodeLocale env a = None"
    and "InitializedOnce s \<or> startup_defined env s"
  shows "\<exists>s'. PyMain env argv s = Some (1, s')
           \<and> Py_Main_arguments (trace s') = Py_Main_arguments (trace s)
           \<and> last (trace s')
               = Stderr (''Fatal vtkpython error: '' @
                         ''unable to decode the command line argument #'' @
                         show_nat (Suc (length (takeWhile
                            (\<lambda>a. a = Some ''--enable-bt'' \<or> vtk_Py_DecodeLocale env a \<noteq> None)
                            argv)))
                         @ endl)"
proof -
  let ?s0 = "s\<lparr>PythonVerboseFlag := scan_verbose_flags argv 0\<rparr>"
  from PyMain_startup [OF assms(3)] obtain r where r: "Initialize env 1 ?s0 = Some r"
    by blast
  let ?d = "decode_arguments env argv 0 [] (snd r)"
  note fail = decode_arguments_failure [OF assms(2), of 0 "[]" "snd r"]
  have main: "PyMain env argv s = Some (1, snd ?d)"
    using assms(1) r fail by (simp add: PyMain_def)
  have "Py_Main_arguments (trace (snd ?d)) = Py_Main_arguments (trace (snd r))"
    by (rule Py_Main_arguments_unchanged) simp
  also have "\<dots> = Py_Main_arguments (trace s)"
    using Initialize_Py_Main_arguments [OF r] by simp
  finally show ?thesis
    using main fail by simp
qed

theorem PyMain_decode_failure_witness:
  "build_py3 example_env
   \<and> (\<exists>a\<in>set [Some ''vtkpython'', Some ''--enable-bt'', Some [CHR 0xFF], Some ''x.py''].
         a \<noteq> Some ''--enable-bt'' \<and> vtk_Py_DecodeLocale example_env a = None)
   \<and> (InitializedOnce process_start \<or> startup_defined example_env process_start)
   \<and> (\<exists>s'. PyMain example_env
              [Some ''vtkpython'', Some ''--enable-bt'', Some [CHR 0xFF], Some ''x.py'']
              process_start = Some (1, s')
          \<and> Py_Main_arguments (trace s') = []
          \<and> last (trace s')
              = Stderr (''Fatal vtkpython error: unable to decode the command line argument #3''
                        @ endl))"
proof -
  have py3: "build_py3 example_env" and tr: "trace process_start = []"
    by (simp_all add: example_env_def process_start_def)
  have d: "vtk_Py_DecodeLocale example_env (Some ''vtkpython'') = Some ''vtkpython''"
    "vtk_Py_DecodeLocale example_env (Some [CHR 0xFF]) = None"
    by (simp_all add: vtk_Py_DecodeLocale_def example_env_def)
  have bad: "\<exists>a\<in>set [Some ''vtkpython'', Some ''--enable-bt'', Some [CHR 0xFF], Some ''x.py''].
               a \<noteq> Some ''--enable-bt'' \<and> vtk_Py_DecodeLocale example_env a = None"
    by (simp add: d)
  have ok: "InitializedOnce process_start \<or> startup_defined example_env process_start"
    using example_startup by simp
  have three: "show_nat (Suc (Suc (Suc 0))) = ''3''"
    by (simp add: show_nat.simps eval_nat_numeral)
  from PyMain_decode_failure [OF py3 bad ok] py3 bad ok show ?thesis
    by (auto simp: tr d three)
qed

section \<open>Initialize: the first-time setup\<close>

lemma enter_notifications_simps [simp]:
  "enter_notifications [] = []"
  "enter_notifications (e # es)
     = (if is_enter_notification e then e # enter_notifications es else enter_notifications es)"
  "enter_notifications (xs @ ys) = enter_notifications xs @ enter_notifications ys"
  by (simp_all add: enter_notifications_def)

lemma enter_notifications_invoke_all:
  "enter_notifications (invoke_all ws e c) = (if e = EnterEvent then invoke_all ws e c else [])"
  by (cases e; induction ws) (auto split: option.splits)

lemma enter_notifications_console_writes [simp]:
  "enter_notifications (console_writes s ws) = []"
  by (induction ws) (simp_all add: console_writes_def)

lemma enter_notifications_flush_events [simp]:
  "enter_notifications (flush_events DisplayErrorText ErrorEvent text ws) = []"
  "enter_notifications (flush_events DisplayText SetOutputEvent text ws) = []"
  by (simp_all add: flush_events_def enter_notifications_invoke_all)

lemma enter_cout [simp]:
  "enter_notifications (trace (cout x s)) = enter_notifications (trace s)"
  by (simp add: cout_def)

lemma enter_VTKPY_DEBUG_MESSAGE [simp]:
  "enter_notifications (trace (VTKPY_DEBUG_MESSAGE x s)) = enter_notifications (trace s)"
  "enter_notifications (trace (VTKPY_DEBUG_MESSAGE_VV x s)) = enter_notifications (trace s)"
  by (simp_all add: VTKPY_DEBUG_MESSAGE_def VTKPY_DEBUG_MESSAGE_VV_def)

lemma enter_vtkPrependPythonPath [simp]:
  "enter_notifications (trace (vtkPrependPythonPath p s)) = enter_notifications (trace s)"
  by (simp add: vtkPrependPythonPath_def Let_def)

lemma enter_fold_vtkPrependPythonPath [simp]:
  "enter_notifications (trace (fold vtkPrependPythonPath ps s)) = enter_notifications (trace s)"
  by (induction ps arbitrary: s) simp_all

lemma enter_vtkSafePrependPythonPath [simp]:
  "enter_notifications (trace (vtkSafePrependPythonPath env p s)) = enter_notifications (trace s)"
  by (simp add: vtkSafePrependPythonPath_def Let_def)

lemma enter_landmark_walk [simp]:
  "enter_notifications (trace (landmark_walk env cs s)) = enter_notifications (trace s)"
  by (induction env cs s rule: landmark_walk.induct; subst landmark_walk.simps;
      simp add: Let_def)

lemma enter_SetupVTKPythonPaths:
  "SetupVTKPythonPaths env s = Some s' \<Longrightarrow>
   enter_notifications (trace s') = enter_notifications (trace s)"
  by (auto simp: SetupVTKPythonPaths_def Let_def split: if_splits option.splits)

lemma enter_SetupPythonPrefix [simp]:
  "enter_notifications (trace (SetupPythonPrefix env s)) = enter_notifications (trace s)"
  by (simp add: SetupPythonPrefix_def Let_def Py_SetProgramName_def)

lemma enter_start_runtime [simp]:
  "enter_notifications (trace (start_runtime env i s)) = enter_notifications (trace s)"
  by (simp add: start_runtime_def Let_def Py_InitializeEx_def)

lemma enter_execute_script [simp]:
  "enter_notifications (trace (snd (execute_script env script s)))
     = enter_notifications (trace s)"
  by (simp add: execute_script_trace)

lemma sys_path_start_runtime:
  "sys_path (start_runtime env i s)
     = (if Py_IsInitialized s then sys_path s
        else default_sys_path env (ProgramName (SetupPythonPrefix env s)))"
  by (simp add: start_runtime_def Let_def Py_InitializeEx_def)

lemma start_components_cong:
  "ProgramName s = ProgramName s' \<Longrightarrow> start_components env s = start_components env s'"
  by (simp add: start_components_def program_name_text_cong [of s s'])

lemma trace_start_runtime:
  "trace (start_runtime env i s)
     = (if Py_IsInitialized s then trace s
        else trace (SetupPythonPrefix env s) @ [Py_InitializeEx_call i, Signal_SIGINT_DFL])"
  by (simp add: start_runtime_def Let_def Py_InitializeEx_def)

lemma example_first_Initialize:
  "Initialize example_env 0
     (PrependPythonPath example_env (Some ''/A'')
        (vtkPythonInterpreter_ctor 7 (vtkPythonInterpreter_ctor 5 process_start)))
   = Some (True,
       \<lparr>InitializedOnce = True, ConsoleBuffering = False, StdErrBuffer = [],
        StdOutBuffer = [], PythonVerboseFlag = 0, GlobalInterpreters = [Some 5, Some 7],
        PythonPaths = [''/A''], Py_IsInitialized = True,
        ProgramName = Some ''/usr/lib/vtkpython'',
        sys_path = [''/A'', ''/a/b/site-packages'', ''/usr/lib/python3''],
        sys_stdout = CaptureHelper False, sys_stderr = CaptureHelper True,
        sys_stdin = CaptureHelper False,
        trace = [Py_InitializeEx_call 0, Signal_SIGINT_DFL, PyRun_SimpleString_call [],
                 InvokeEvent 5 EnterEvent None, InvokeEvent 7 EnterEvent None]\<rparr>)"
  by code_simp

text \<open>
  Claim C1. In a process where the first-time setup has not run, the first call of
  Initialize returns true and every further call of the sequence returns false; the
  state after the whole sequence is the state \<open>s'\<close> after the first call, and any later
  call from \<open>s'\<close> returns false and changes nothing. What the first call did is read off
  \<open>s'\<close>. The runtime is started and InitializedOnce is set. The empty script is the one
  thing run in the runtime. The three streams are bound to the capture helpers.
  \<open>sys.path\<close> is the pending paths in reverse order, then the site-packages directory of
  the first ancestor with the landmark (when there is one and it is a directory), then
  the path the runtime had. The trace gained the notifications of EnterEvent of the
  registered observers, one for each entry that is not null, and no other notification
  of EnterEvent; they are the last events of the trace. The pending paths, the registry
  and the verbosity are as before, and nothing is left in the accumulators. The
  hypothesis \<open>startup_defined\<close> says that SetupVTKPythonPaths has a program name to
  start from when the VTK library is not located.
\<close>

theorem Initialize_sets_up_once:
  assumes "\<not> InitializedOnce s" and "startup_defined env s"
  shows "\<exists>s2 s'.
           SetupVTKPythonPaths env
             (bind_streams (snd (execute_script env (Some [])
                ((start_runtime env i s)\<lparr>InitializedOnce := True\<rparr>)))) = Some s2
         \<and> s' = NotifyInterpreters EnterEvent None
                  (fold vtkPrependPythonPath (PythonPaths s2) s2)
         \<and> Initialize env i s = Some (True, s')
         \<and> Initialize_calls env (i # is) s = Some (True # replicate (length is) False, s')
         \<and> (\<forall>j. Initialize env j s' = Some (False, s'))
         \<and> InitializedOnce s' \<and> Py_IsInitialized s'
         \<and> runtime_calls (trace s') = runtime_calls (trace s) @ [PyRun_SimpleString_call []]
         \<and> sys_stdout s' = CaptureHelper False
         \<and> sys_stderr s' = CaptureHelper True
         \<and> sys_stdin s' = CaptureHelper False
         \<and> sys_path s'
             = rev (PythonPaths s)
               @ (case find (has_landmark env)
                         (ancestors (start_components env
                            (if Py_IsInitialized s then s else SetupPythonPrefix env s))) of
                    None \<Rightarrow> []
                  | Some c \<Rightarrow> if FileIsDirectory env (site_packages_dir env c)
                              then [site_packages_dir env c] else [])
               @ (if Py_IsInitialized s then sys_path s
                  else default_sys_path env (ProgramName (SetupPythonPrefix env s)))
         \<and> enter_notifications (trace s')
             = enter_notifications (trace s)
               @ map (\<lambda>w. InvokeEvent (the w) EnterEvent None)
                     (filter (\<lambda>w. w \<noteq> None) (GlobalInterpreters s))
         \<and> trace s'
             = trace (fold vtkPrependPythonPath (PythonPaths s2) s2)
               @ map (\<lambda>w. InvokeEvent (the w) EnterEvent None)
                     (filter (\<lambda>w. w \<noteq> None) (GlobalInterpreters s))
         \<and> PythonPaths s' = PythonPaths s
         \<and> GlobalInterpreters s' = GlobalInterpreters s
         \<and> PythonVerboseFlag s' = PythonVerboseFlag s
         \<and> ConsoleBuffering s' = False \<and> StdOutBuffer s' = [] \<and> StdErrBuffer s' = []"
proof -
  let ?x = "bind_streams (snd (execute_script env (Some [])
              ((start_runtime env i s)\<lparr>InitializedOnce := True\<rparr>)))"
  let ?t0 = "if Py_IsInitialized s then s else SetupPythonPrefix env s"
  let ?base = "if Py_IsInitialized s then sys_path s
               else default_sys_path env (ProgramName (SetupPythonPrefix env s))"
  from Initialize_first_returns [OF assms, of i] obtain s2 where
    s2: "SetupVTKPythonPaths env ?x = Some s2"
    and first: "Initialize env i s
                  = Some (True, NotifyInterpreters EnterEvent None
                                  (fold vtkPrependPythonPath (PythonPaths s2) s2))"
    by blast
  let ?s' = "NotifyInterpreters EnterEvent None (fold vtkPrependPythonPath (PythonPaths s2) s2)"
  note res = Initialize_result_first [OF first assms(1)]
  note fr = SetupVTKPythonPaths_frame [OF s2]
  have once: "InitializedOnce ?s'" and running: "Py_IsInitialized ?s'"
    using res(2,3) by simp_all
  have later: "Initialize_calls env is ?s' = Some (replicate (length is) False, ?s')"
    using once running by (rule Initialize_calls_after_first)
  have again: "\<forall>j. Initialize env j ?s' = Some (False, ?s')"
    using once running by (simp add: Initialize_once start_runtime_running)
  have calls: "runtime_calls (trace ?s')
                 = runtime_calls (trace s) @ [PyRun_SimpleString_call []]"
    using res(12) by simp
  have out: "sys_stdout ?s' = CaptureHelper False" and err: "sys_stderr ?s' = CaptureHelper True"
    using res(7,8) by simp_all
  have inp: "sys_stdin ?s' = CaptureHelper False"
    by (simp add: fr)
  have px: "ProgramName ?x = ProgramName ?t0"
    by (simp add: start_runtime_ProgramName)
  have defined: "vtk_library_located env \<or> program_name_text env ?x \<noteq> None"
    using s2 SetupVTKPythonPaths_returns [of env ?x] by simp
  from sys_path_SetupVTKPythonPaths [OF defined] s2
  have "sys_path s2 =
          (case find (has_landmark env) (ancestors (start_components env ?x)) of
             None \<Rightarrow> sys_path ?x
           | Some c \<Rightarrow> if FileIsDirectory env (site_packages_dir env c)
                       then site_packages_dir env c # sys_path ?x else sys_path ?x)"
    by simp
  moreover have "start_components env ?x = start_components env ?t0"
    using px by (rule start_components_cong)
  moreover have "sys_path ?x = ?base"
    by (simp add: sys_path_start_runtime)
  ultimately have path2: "sys_path s2 =
          (case find (has_landmark env) (ancestors (start_components env ?t0)) of
             None \<Rightarrow> []
           | Some c \<Rightarrow> if FileIsDirectory env (site_packages_dir env c)
                       then [site_packages_dir env c] else [])
          @ ?base"
    by (simp split: option.split)
  have paths2: "PythonPaths s2 = PythonPaths s"
    by (simp add: fr)
  have path: "sys_path ?s' = rev (PythonPaths s) @ sys_path s2"
    by (simp add: sys_path_fold_vtkPrependPythonPath paths2)
  have obs2: "GlobalInterpreters s2 = GlobalInterpreters s"
    by (simp add: fr)
  have tr: "trace ?s' = trace (fold vtkPrependPythonPath (PythonPaths s2) s2)
               @ map (\<lambda>w. InvokeEvent (the w) EnterEvent None)
                     (filter (\<lambda>w. w \<noteq> None) (GlobalInterpreters s))"
    by (simp only: NotifyInterpreters_def invoke_all_live [symmetric] obs2
        fold_vtkPrependPythonPath_frame) simp
  have "enter_notifications (trace s2) = enter_notifications (trace s)"
    using enter_SetupVTKPythonPaths [OF s2] by (simp add: bind_streams_def)
  then have "enter_notifications (trace ?s')
             = enter_notifications (trace s)
               @ invoke_all (GlobalInterpreters s) EnterEvent None"
    by (simp add: NotifyInterpreters_def enter_notifications_invoke_all obs2)
  then have ent: "enter_notifications (trace ?s')
             = enter_notifications (trace s)
               @ map (\<lambda>w. InvokeEvent (the w) EnterEvent None)
                     (filter (\<lambda>w. w \<noteq> None) (GlobalInterpreters s))"
    by (simp only: invoke_all_live)
  have rest: "PythonPaths ?s' = PythonPaths s" "GlobalInterpreters ?s' = GlobalInterpreters s"
    "PythonVerboseFlag ?s' = PythonVerboseFlag s" "ConsoleBuffering ?s' = False"
    "StdOutBuffer ?s' = []" "StdErrBuffer ?s' = []"
    using res(4,5,6,9,10,11) by simp_all
  have seq: "Initialize_calls env (i # is) s
               = Some (True # replicate (length is) False, ?s')"
    using first later by simp
  have pathfull: "sys_path ?s'
             = rev (PythonPaths s)
               @ (case find (has_landmark env) (ancestors (start_components env ?t0)) of
                    None \<Rightarrow> []
                  | Some c \<Rightarrow> if FileIsDirectory env (site_packages_dir env c)
                              then [site_packages_dir env c] else [])
               @ ?base"
    by (simp only: path path2)
  show ?thesis
    by (intro exI [of _ s2] exI [of _ ?s'] conjI)
       (rule s2 refl first seq again once running calls out err inp pathfull ent tr rest)+
qed

theorem Initialize_sets_up_once_witness:
  "\<not> InitializedOnce
      (PrependPythonPath example_env (Some ''/A'')
         (vtkPythonInterpreter_ctor 7 (vtkPythonInterpreter_ctor 5 process_start)))
   \<and> startup_defined example_env
        (PrependPythonPath example_env (Some ''/A'')
           (vtkPythonInterpreter_ctor 7 (vtkPythonInterpreter_ctor 5 process_start)))
   \<and> Initialize_calls example_env [0, 1, 0]
        (PrependPythonPath example_env (Some ''/A'')
           (vtkPythonInterpreter_ctor 7 (vtkPythonInterpreter_ctor 5 process_start)))
       = Some ([True, False, False],
           \<lparr>InitializedOnce = True, ConsoleBuffering = False, StdErrBuffer = [],
            StdOutBuffer = [], PythonVerboseFlag = 0, GlobalInterpreters = [Some 5, Some 7],
            PythonPaths = [''/A''], Py_IsInitialized = True,
            ProgramName = Some ''/usr/lib/vtkpython'',
            sys_path = [''/A'', ''/a/b/site-packages'', ''/usr/lib/python3''],
            sys_stdout = CaptureHelper False, sys_stderr = CaptureHelper True,
            sys_stdin = CaptureHelper False,
            trace = [Py_InitializeEx_call 0, Signal_SIGINT_DFL, PyRun_SimpleString_call [],
                     InvokeEvent 5 EnterEvent None, InvokeEvent 7 EnterEvent None]\<rparr>)"
proof -
  let ?s = "PrependPythonPath example_env (Some ''/A'')
              (vtkPythonInterpreter_ctor 7 (vtkPythonInterpreter_ctor 5 process_start))"
  have a: "\<not> InitializedOnce ?s"
    by (simp add: PrependPythonPath_def Let_def vtkPythonInterpreter_ctor_def process_start_def)
  have b: "startup_defined example_env ?s"
    by (simp add: startup_defined_def vtk_library_located_def GetLibraryForSymbol_def
        example_env_def)
  from Initialize_sets_up_once [OF a b, of 0 "[1, 0]"] obtain s' where
    first: "Initialize example_env 0 ?s = Some (True, s')"
    and seq: "Initialize_calls example_env [0, 1, 0] ?s
                = Some (True # replicate (length [1, 0 :: int]) False, s')"
    by blast
  from first have "s' =
           \<lparr>InitializedOnce = True, ConsoleBuffering = False, StdErrBuffer = [],
            StdOutBuffer = [], PythonVerboseFlag = 0, GlobalInterpreters = [Some 5, Some 7],
            PythonPaths = [''/A''], Py_IsInitialized = True,
            ProgramName = Some ''/usr/lib/vtkpython'',
            sys_path = [''/A'', ''/a/b/site-packages'', ''/usr/lib/python3''],
            sys_stdout = CaptureHelper False, sys_stderr = CaptureHelper True,
            sys_stdin = CaptureHelper False,
            trace = [Py_InitializeEx_call 0, Signal_SIGINT_DFL, PyRun_SimpleString_call [],
                     InvokeEvent 5 EnterEvent None, InvokeEvent 7 EnterEvent None]\<rparr>"
    by (simp only: example_first_Initialize option.inject prod.inject)
  with seq a b show ?thesis
    by simp
qed

end
